theory Spec2Isabelle
  imports Complex_Main "HOL-Library.Word" "HOL-Library.Log_Nat"
begin

section \<open>Values carried by messages and widgets\<close>

text \<open>
  A \<open>float\<close> or \<open>double\<close> is modelled by the number it denotes, or one of the two
  infinities, or NaN. The two zeros are not told apart. Widening a float to a double keeps
  the number. Narrowing a double to a float rounds it to the nearest number of the IEEE 754
  single format (24 bits of precision, exponents from -126 to 127, subnormal numbers below),
  a tie going to the even significand, and a result of magnitude \<open>2^128\<close> or more to the
  infinity of its sign.
\<close>

datatype fp = Finite rat | PosInf | NegInf | NaN

text \<open>\<open>pow2 e\<close> is 2 to the power \<open>e\<close>, and \<open>ilog2 a\<close> the exponent of a positive number:
  the \<open>e\<close> with \<open>pow2 e \<le> a < pow2 (e + 1)\<close>.\<close>

definition pow2 :: "int \<Rightarrow> rat" where
  "pow2 e = (if 0 \<le> e then 2 ^ nat e else 1 / 2 ^ nat (- e))"

definition ilog2 :: "rat \<Rightarrow> int" where
  "ilog2 a =
     (let e = bitlen (fst (quotient_of a)) - bitlen (snd (quotient_of a))
      in if pow2 e \<le> a then e else e - 1)"

text \<open>The integer nearest to a number, the even one of the two when it lies half way.\<close>

definition round_even :: "rat \<Rightarrow> int" where
  "round_even r =
     (if r - of_int \<lfloor>r\<rfloor> < 1 / 2 then \<lfloor>r\<rfloor>
      else if 1 / 2 < r - of_int \<lfloor>r\<rfloor> then \<lfloor>r\<rfloor> + 1
      else if even \<lfloor>r\<rfloor> then \<lfloor>r\<rfloor> else \<lfloor>r\<rfloor> + 1)"

text \<open>
  Rounding to a binary format of \<open>p\<close> bits of precision with exponents from \<open>emin\<close> to
  \<open>emax\<close>: the number is rounded to a multiple of the unit in the last place of its binade
  (of the lowest binade for a subnormal number).
\<close>

definition round_to :: "nat \<Rightarrow> int \<Rightarrow> int \<Rightarrow> rat \<Rightarrow> fp" where
  "round_to p emin emax q =
     (if q = 0 then Finite 0
      else
        let ulp = pow2 (max (ilog2 \<bar>q\<bar>) emin - int p + 1);
            r = of_int (round_even (\<bar>q\<bar> / ulp)) * ulp
        in if pow2 (emax + 1) \<le> r then (if q < 0 then NegInf else PosInf)
           else Finite (if q < 0 then - r else r))"

text \<open>The conversion of a \<open>double\<close> to \<open>float\<close>.\<close>

definition float_of_double :: "fp \<Rightarrow> fp" where
  "float_of_double x = (case x of Finite q \<Rightarrow> round_to 24 (- 126) 127 q | _ \<Rightarrow> x)"

text \<open>
  \<open>ignition::math::equal(a, b)\<close> is \<open>fabs(a - b) <= 1e-6\<close>. For an infinity or a NaN
  the difference is NaN and the comparison is false.
\<close>

fun math_equal :: "fp \<Rightarrow> fp \<Rightarrow> bool" where
  "math_equal (Finite a) (Finite b) = (\<bar>a - b\<bar> \<le> 1 / 1000000)"
| "math_equal _ _ = False"

datatype vector3d = Vector3d (vx: fp) (vy: fp) (vz: fp)

text \<open>The constructor of \<open>math::Quaterniond\<close> takes w first, then x, y, z.\<close>

datatype quaterniond = Quaterniond (qw: fp) (qx: fp) (qy: fp) (qz: fp)

datatype pose3d = Pose3d (Pos: vector3d) (Rot: quaterniond)

datatype color = Color (cr: fp) (cg: fp) (cb: fp) (ca: fp)

section \<open>Protocol-buffer messages seen through reflection\<close>

text \<open>
  A message is the list of its field slots, in descriptor order. A slot holds what the
  field descriptor says (name, label) together with what reflection reads: the has-bit and
  the stored value, which is the default while the field is unset. The type of a field is
  the constructor of its value, so a getter never meets a value of another type. The
  elements of a repeated field are not modelled (the walks skip such fields); its value
  only carries the element type.

  \<open>has_descriptor\<close> and \<open>has_reflection\<close> say whether \<open>GetDescriptor()\<close> and
  \<open>GetReflection()\<close> return a non-null pointer, and \<open>NullField\<close> is a slot whose
  \<open>field(i)\<close> is a null pointer: the walks test all three.
\<close>

datatype other_type =
  TYPE_FIXED64 | TYPE_FIXED32 | TYPE_GROUP | TYPE_BYTES
| TYPE_SFIXED32 | TYPE_SFIXED64 | TYPE_SINT32 | TYPE_SINT64

datatype fvalue =
  VDouble fp
| VFloat fp
| VInt64 "64 word"
| VUInt64 "64 word"
| VInt32 "32 word"
| VUInt32 "32 word"
| VBool bool
| VString string
| VMessage string message
| VEnum "string list" nat
| VOther other_type "8 word list"
and message = Message (has_descriptor: bool) (has_reflection: bool) (slots: "slot list")
and slot = NullField | Field (fname: string) (is_repeated: bool) (has: bool) (fval: fvalue)

text \<open>
  In \<open>VMessage t m\<close>, \<open>t\<close> is \<open>field->message_type()->name()\<close>. In \<open>VEnum names k\<close>,
  \<open>names\<close> are the value names of the enum descriptor and \<open>k\<close> selects the current one;
  \<open>GetEnum\<close> returns a null pointer when \<open>k\<close> selects none.
\<close>

definition GetEnum :: "string list \<Rightarrow> nat \<Rightarrow> string option" where
  "GetEnum names k = (if k < length names then Some (names ! k) else None)"

section \<open>Qt values and controls\<close>

datatype qvariant =
  QInvalid
| QDouble fp
| QFloat fp
| QInt "32 word"
| QUInt "32 word"
| QBool bool
| QStdString string
| QVector3d vector3d
| QPose3d pose3d
| QColor color
| QGeometry message

text \<open>
  The controls a property widget keeps in its \<open>widgets\<close> vector. A spin box holds the
  number last put into it. A line edit holds its text, a plain-text edit the text its
  document was set to. A combo box has its item texts and its current index (\<open>-1\<close> when
  nothing is selected). A group box holds the store addresses of the property widgets laid
  out in it. A \<open>QString\<close> is kept as the UTF-8 encoding of its text (see below).
\<close>

datatype qwidget =
  QDoubleSpinBox fp
| QLineEdit string
| QPlainTextEdit string
| QComboBox "string list" int
| QGroupBox "nat list"
| QOtherWidget

datatype number_type = NumberWidget_DOUBLE | NumberWidget_INT | NumberWidget_UINT

datatype string_type = line | plain

datatype widget_class =
  NumberWidget number_type
| BoolWidget
| StringWidget string_type
| GeometryWidget
| Pose3dWidget
| Vector3dWidget
| ColorWidget
| DensityWidget
| EnumWidget
| BasePropertyWidget

text \<open>
  A \<open>PropertyWidget\<close> object. \<open>parentGroup\<close> is \<open>Some e\<close> when the widget's parent is a
  \<open>CollapsibleWidget\<close> whose \<open>isEnabled()\<close> is \<open>e\<close> (a collapsible widget wraps exactly
  one child), and \<open>None\<close> when the parent is anything else.
\<close>

record PropertyWidget =
  wclass :: widget_class
  widgets :: "qwidget list"
  wvalue :: qvariant
  density :: fp
  scopedName :: string
  isEnabled :: bool
  parentGroup :: "bool option"

text \<open>
  The state of a \<open>MessageWidget\<close>: \<open>configWidgets\<close> is the map of scoped names to widget
  pointers, kept as an association list read with \<open>map_of\<close>; \<open>objects\<close> is the store of
  the property widgets, a pointer being an index into it.
\<close>

record MessageWidget =
  configWidgets :: "(string \<times> nat) list"
  objects :: "PropertyWidget list"

definition MessageWidget_init :: MessageWidget where
  "MessageWidget_init = \<lparr> configWidgets = [], objects = [] \<rparr>"

definition find_widget :: "MessageWidget \<Rightarrow> string \<Rightarrow> nat option" where
  "find_widget st name = map_of (configWidgets st) name"

section \<open>Failures\<close>

text \<open>
  What C++ leaves undefined (a null or dangling pointer followed, an index past the end of
  a vector or of a descriptor's fields) is \<open>UndefinedBehaviour\<close>; a reflection call on a
  field of another type or label, which protobuf aborts on, is \<open>FatalError\<close>.
\<close>

datatype error = UndefinedBehaviour | FatalError

definition bindE :: "error + 'a \<Rightarrow> ('a \<Rightarrow> error + 'b) \<Rightarrow> error + 'b" where
  "bindE m f = (case m of Inl e \<Rightarrow> Inl e | Inr x \<Rightarrow> f x)"

lemma bindE_cong [fundef_cong]:
  "m = m' \<Longrightarrow> (\<And>x. m' = Inr x \<Longrightarrow> f x = f' x) \<Longrightarrow> bindE m f = bindE m' f'"
  by (simp add: bindE_def split: sum.splits)

definition deref :: "MessageWidget \<Rightarrow> nat \<Rightarrow> error + PropertyWidget" where
  "deref st a = (if a < length (objects st) then Inr (objects st ! a) else Inl UndefinedBehaviour)"

definition store :: "MessageWidget \<Rightarrow> nat \<Rightarrow> PropertyWidget \<Rightarrow> MessageWidget" where
  "store st a w = st\<lparr> objects := (objects st)[a := w] \<rparr>"

text \<open>\<open>new W(...)\<close>: the object is put at the end of the store.\<close>

definition new_object :: "MessageWidget \<Rightarrow> PropertyWidget \<Rightarrow> MessageWidget \<times> nat" where
  "new_object st w = (st\<lparr> objects := objects st @ [w] \<rparr>, length (objects st))"

section \<open>Strings between C++ and Qt\<close>

text \<open>
  A \<open>std::string\<close> is its bytes, whatever they are. \<open>c_str()\<close> hands a C string on,
  which ends at the first NUL byte.
\<close>

definition c_str :: "string \<Rightarrow> string" where
  "c_str s = takeWhile (\<lambda>c. c \<noteq> CHR 0x00) s"

text \<open>
  \<open>QString::fromUtf8\<close> decodes bytes into text. \<open>utf8_len c cs\<close> is the length of the
  well-formed UTF-8 sequence that starts with the byte \<open>c\<close> followed by \<open>cs\<close>, and 0 when
  there is none there (a stray continuation byte, an overlong form, a surrogate, a code past
  U+10FFFF, a sequence cut short); a noncharacter such as U+FFFF is well-formed. The
  decoder of Qt 5 passes over a byte-order mark in front, puts U+FFFD for a byte that
  starts no well-formed sequence and goes on with the byte after it. A \<open>QString\<close> made this way holds well-formed text only, so it is kept here
  as the UTF-8 encoding of that text, which is what \<open>toStdString\<close> returns; two
  \<open>QString\<close>s are equal when their encodings are. The counter of \<open>decode_utf8\<close> is the
  number of bytes of the current sequence still to be copied.
\<close>

definition cont :: "char \<Rightarrow> bool" where
  "cont c \<longleftrightarrow> 0x80 \<le> (of_char c :: nat) \<and> (of_char c :: nat) \<le> 0xBF"

definition seq_ok :: "nat \<Rightarrow> nat \<Rightarrow> nat \<Rightarrow> string \<Rightarrow> bool" where
  "seq_ok lo hi k cs =
     (case cs of
        [] \<Rightarrow> False
      | d # ds \<Rightarrow> lo \<le> (of_char d :: nat) \<and> (of_char d :: nat) \<le> hi
                 \<and> k \<le> length ds \<and> list_all cont (take k ds))"

definition utf8_len :: "char \<Rightarrow> string \<Rightarrow> nat" where
  "utf8_len c cs =
     (let b = of_char c :: nat in
      if b < 0x80 then 1
      else if b < 0xC2 then 0
      else if b < 0xE0 then (if seq_ok 0x80 0xBF 0 cs then 2 else 0)
      else if b < 0xF0 then
        (if seq_ok (if b = 0xE0 then 0xA0 else 0x80) (if b = 0xED then 0x9F else 0xBF) 1 cs
         then 3 else 0)
      else if b < 0xF5 then
        (if seq_ok (if b = 0xF0 then 0x90 else 0x80) (if b = 0xF4 then 0x8F else 0xBF) 2 cs
         then 4 else 0)
      else 0)"

fun decode_utf8 :: "nat \<Rightarrow> string \<Rightarrow> string" where
  "decode_utf8 k [] = []"
| "decode_utf8 (Suc k) (c # cs) = c # decode_utf8 k cs"
| "decode_utf8 0 (c # cs) =
     (if utf8_len c cs = 0 then [CHR 0xEF, CHR 0xBF, CHR 0xBD] @ decode_utf8 0 cs
      else c # decode_utf8 (utf8_len c cs - 1) cs)"

definition fromUtf8 :: "string \<Rightarrow> string" where
  "fromUtf8 s = decode_utf8 0 (if take 3 s = [CHR 0xEF, CHR 0xBB, CHR 0xBF] then drop 3 s else s)"

text \<open>
  \<open>QString::fromStdString\<close> is \<open>fromUtf8\<close> on all the bytes of the string, and
  \<open>toStdString\<close> the UTF-8 encoding of the text. \<open>tr\<close> on a C string returns its source
  text, decoded: no translation is installed.
\<close>

definition fromStdString :: "string \<Rightarrow> string" where
  "fromStdString s = fromUtf8 s"

definition toStdString :: "string \<Rightarrow> string" where
  "toStdString s = s"

definition tr :: "string \<Rightarrow> string" where
  "tr s = fromUtf8 s"

section \<open>Text controls\<close>

text \<open>
  \<open>QLineEdit::setText\<close> keeps the first \<open>maxLength()\<close> UTF-16 code units of the text,
  32767 by default, and \<open>text()\<close> returns what is kept. A character outside the basic
  plane takes two code units (its encoding starts with a byte from \<open>0xF0\<close> on), any other
  one. When the cut falls between the two, the first stays without its partner, and
  \<open>toStdString\<close> of Qt 5 writes a question mark for it.
\<close>

definition utf16_units :: "char \<Rightarrow> nat" where
  "utf16_units c = (if cont c then 0 else if 0xF0 \<le> (of_char c :: nat) then 2 else 1)"

definition utf16_length :: "string \<Rightarrow> nat" where
  "utf16_length s = sum_list (map utf16_units s)"

fun left :: "nat \<Rightarrow> string \<Rightarrow> string" where
  "left n [] = []"
| "left n (c # cs) =
     (if utf16_units c \<le> n then c # left (n - utf16_units c) cs
      else if n = 1 then ''?'' else [])"

definition setText :: "string \<Rightarrow> string" where
  "setText t = left 32767 t"

text \<open>
  \<open>QPlainTextEdit::toPlainText\<close> of a document filled by \<open>setPlainText\<close>. The document
  is made of blocks: a carriage return with its line feed, a lone carriage return, a line
  feed, U+2029, U+FDD0 and U+FDD1 each end a block, and \<open>toPlainText\<close> joins the blocks with
  line feeds; it also writes a line feed for U+2028 and a space for the no-break space
  U+00A0. \<open>line_break s\<close> is the number of bytes in front of \<open>s\<close> that come back as one line
  feed; the counter of \<open>plain_text\<close> is the number of bytes still to be passed over.
\<close>

definition line_break :: "string \<Rightarrow> nat" where
  "line_break s =
     (if take 2 s = [CHR 0x0D, CHR 0x0A] then 2
      else if take 1 s = [CHR 0x0D] \<or> take 1 s = [CHR 0x0A] then 1
      else if take 3 s = [CHR 0xE2, CHR 0x80, CHR 0xA8] \<or> take 3 s = [CHR 0xE2, CHR 0x80, CHR 0xA9]
            \<or> take 3 s = [CHR 0xEF, CHR 0xB7, CHR 0x90] \<or> take 3 s = [CHR 0xEF, CHR 0xB7, CHR 0x91]
      then 3 else 0)"

fun plain_text :: "nat \<Rightarrow> string \<Rightarrow> string" where
  "plain_text k [] = []"
| "plain_text (Suc k) (c # cs) = plain_text k cs"
| "plain_text 0 (c # cs) =
     (if line_break (c # cs) \<noteq> 0 then CHR 0x0A # plain_text (line_break (c # cs) - 1) cs
      else if take 2 (c # cs) = [CHR 0xC2, CHR 0xA0] then CHR 0x20 # plain_text 1 cs
      else c # plain_text 0 cs)"

definition toPlainText :: "string \<Rightarrow> string" where
  "toPlainText t = plain_text 0 t"

section \<open>What the libraries compute\<close>

text \<open>
  The arithmetic of the libraries that the code calls is a parameter of the development:
  from ignition-math and ignition-common, the Euler angles of a quaternion, the quaternion
  of three Euler angles, and the density of the material nearest to a density (negative
  when none is within the tolerance); from Qt, \<open>qRound64\<close>, by which a \<open>QVariant\<close>
  holding a floating-point number becomes an integer; from ignition-msgs, the
  default-constructed \<open>msgs::Geometry\<close>.
\<close>

record ext =
  Euler :: "quaterniond \<Rightarrow> vector3d"
  Quaterniond_euler :: "fp \<Rightarrow> fp \<Rightarrow> fp \<Rightarrow> quaterniond"
  MaterialDensity_Nearest :: "fp \<Rightarrow> fp"
  qRound64 :: "fp \<Rightarrow> 64 word"
  Geometry_default :: message

section \<open>QVariant conversions\<close>

text \<open>
  \<open>QVariant::toDouble\<close>, \<open>toInt\<close>, \<open>toUInt\<close> and \<open>toBool\<close> on the variants above. A
  variant of a type Qt cannot convert gives zero (false). \<open>toInt\<close> and \<open>toUInt\<close> go
  through a 64-bit integer, of which they keep the low 32 bits; a floating-point number
  gets there by \<open>qRound64\<close>.
\<close>

fun toDouble :: "qvariant \<Rightarrow> fp" where
  "toDouble (QDouble d) = d"
| "toDouble (QFloat f) = f"
| "toDouble (QInt i) = Finite (of_int (sint i))"
| "toDouble (QUInt u) = Finite (of_int (uint u))"
| "toDouble (QBool b) = Finite (if b then 1 else 0)"
| "toDouble _ = Finite 0"

fun toInt :: "ext \<Rightarrow> qvariant \<Rightarrow> 32 word" where
  "toInt X (QInt i) = i"
| "toInt X (QUInt u) = u"
| "toInt X (QBool b) = (if b then 1 else 0)"
| "toInt X (QDouble d) = ucast (qRound64 X d)"
| "toInt X (QFloat f) = ucast (qRound64 X f)"
| "toInt X _ = 0"

fun toUInt :: "ext \<Rightarrow> qvariant \<Rightarrow> 32 word" where
  "toUInt X (QInt i) = i"
| "toUInt X (QUInt u) = u"
| "toUInt X (QBool b) = (if b then 1 else 0)"
| "toUInt X (QDouble d) = ucast (qRound64 X d)"
| "toUInt X (QFloat f) = ucast (qRound64 X f)"
| "toUInt X _ = 0"

fun toBool :: "qvariant \<Rightarrow> bool" where
  "toBool (QBool b) = b"
| "toBool (QInt i) = (i \<noteq> 0)"
| "toBool (QUInt u) = (u \<noteq> 0)"
| "toBool (QDouble d) = (d \<noteq> Finite 0)"
| "toBool (QFloat f) = (f \<noteq> Finite 0)"
| "toBool _ = False"

section \<open>Combo boxes\<close>

text \<open>
  \<open>QComboBox::findText\<close> with its default flags: the index of the first item equal to the
  text, or \<open>-1\<close>.
\<close>

fun findText :: "string list \<Rightarrow> string \<Rightarrow> int" where
  "findText [] t = - 1"
| "findText (x # xs) t = (if x = t then 0 else if findText xs t < 0 then - 1 else findText xs t + 1)"

text \<open>\<open>addItem\<close> appends; the first item put into an empty box becomes the current one.\<close>

definition addItem :: "qwidget \<Rightarrow> string \<Rightarrow> qwidget" where
  "addItem c t =
     (case c of
        QComboBox items idx \<Rightarrow> QComboBox (items @ [t]) (if items = [] then 0 else idx)
      | _ \<Rightarrow> c)"

definition currentText :: "string list \<Rightarrow> int \<Rightarrow> string" where
  "currentText items idx = (if 0 \<le> idx \<and> nat idx < length items then items ! nat idx else [])"

section \<open>Property widgets\<close>

text \<open>
  Modelled from the spec: the classes NumberWidget, BoolWidget, StringWidget,
  GeometryWidget, Pose3dWidget, Vector3dWidget and ColorWidget are not among the sources
  (only the declaration of StringWidget is). The spec gives them the widget value protocol
  (\<open>SetValue\<close>, \<open>Value\<close>) keyed by the variant type. Here a widget keeps the value it was
  given, converted to the type of the widget, in \<open>wvalue\<close>, which \<open>Value()\<close> returns;
  \<open>SetValue\<close> returns false and changes nothing on a variant the widget cannot take. The
  widgets whose controls \<open>UpdateMsg\<close> reads directly also show the value there: a string
  widget in its line or plain-text edit (through \<open>setText\<close> or \<open>setPlainText\<close> on
  \<open>QString::fromStdString\<close> of the value), a vector widget in three spin boxes (x, y, z),
  a pose widget in six (x, y, z, roll, pitch, yaw), a colour widget in four (r, g, b, a).
  A spin box holds the number put into it (no range, no rounding to its decimals).
\<close>

definition blank_widget :: PropertyWidget where
  "blank_widget = \<lparr> wclass = BasePropertyWidget, widgets = [], wvalue = QInvalid,
                     density = Finite 0, scopedName = [], isEnabled = True, parentGroup = None \<rparr>"

definition new_NumberWidget :: "string \<Rightarrow> int \<Rightarrow> number_type \<Rightarrow> PropertyWidget" where
  "new_NumberWidget name level t =
     blank_widget\<lparr> wclass := NumberWidget t,
                   widgets := (case t of NumberWidget_DOUBLE \<Rightarrow> [QDoubleSpinBox (Finite 0)] | _ \<Rightarrow> [QOtherWidget]),
                   wvalue := (case t of NumberWidget_DOUBLE \<Rightarrow> QDouble (Finite 0) | NumberWidget_INT \<Rightarrow> QInt 0 | NumberWidget_UINT \<Rightarrow> QUInt 0) \<rparr>"

definition new_BoolWidget :: "string \<Rightarrow> int \<Rightarrow> PropertyWidget" where
  "new_BoolWidget name level =
     blank_widget\<lparr> wclass := BoolWidget, widgets := [QOtherWidget], wvalue := QBool False \<rparr>"

definition new_StringWidget :: "string \<Rightarrow> int \<Rightarrow> string \<Rightarrow> PropertyWidget" where
  "new_StringWidget name level type =
     blank_widget\<lparr> wclass := StringWidget (if type = ''plain'' then plain else line),
                   widgets := [if type = ''plain'' then QPlainTextEdit [] else QLineEdit []],
                   wvalue := QStdString [] \<rparr>"

definition new_GeometryWidget :: "string \<Rightarrow> int \<Rightarrow> PropertyWidget" where
  "new_GeometryWidget name level = blank_widget\<lparr> wclass := GeometryWidget, widgets := [QOtherWidget] \<rparr>"

definition new_Pose3dWidget :: "string \<Rightarrow> int \<Rightarrow> PropertyWidget" where
  "new_Pose3dWidget name level =
     blank_widget\<lparr> wclass := Pose3dWidget, widgets := replicate 6 (QDoubleSpinBox (Finite 0)) \<rparr>"

definition new_Vector3dWidget :: "string \<Rightarrow> int \<Rightarrow> PropertyWidget" where
  "new_Vector3dWidget name level =
     blank_widget\<lparr> wclass := Vector3dWidget, widgets := replicate 3 (QDoubleSpinBox (Finite 0)) \<rparr>"

definition new_ColorWidget :: "string \<Rightarrow> int \<Rightarrow> PropertyWidget" where
  "new_ColorWidget name level =
     blank_widget\<lparr> wclass := ColorWidget, widgets := replicate 4 (QDoubleSpinBox (Finite 0)) \<rparr>"

text \<open>\<open>new PropertyWidget()\<close> around the group box of a nested message.\<close>

definition new_PropertyWidget :: "nat list \<Rightarrow> PropertyWidget" where
  "new_PropertyWidget children = blank_widget\<lparr> widgets := [QGroupBox children] \<rparr>"

definition set_text :: "qwidget \<Rightarrow> string \<Rightarrow> qwidget" where
  "set_text c s =
     (case c of
        QLineEdit _ \<Rightarrow> QLineEdit (setText s)
      | QPlainTextEdit _ \<Rightarrow> QPlainTextEdit s
      | _ \<Rightarrow> c)"

definition set_spins :: "qwidget list \<Rightarrow> fp list \<Rightarrow> qwidget list" where
  "set_spins ws vs = map QDoubleSpinBox vs @ drop (length vs) ws"

definition SetValue :: "ext \<Rightarrow> PropertyWidget \<Rightarrow> qvariant \<Rightarrow> bool \<times> PropertyWidget" where
  "SetValue X w v =
     (case wclass w of
        NumberWidget NumberWidget_DOUBLE \<Rightarrow>
          (True, w\<lparr> wvalue := QDouble (toDouble v), widgets := set_spins (widgets w) [toDouble v] \<rparr>)
      | NumberWidget NumberWidget_INT \<Rightarrow> (True, w\<lparr> wvalue := QInt (toInt X v) \<rparr>)
      | NumberWidget NumberWidget_UINT \<Rightarrow> (True, w\<lparr> wvalue := QUInt (toUInt X v) \<rparr>)
      | BoolWidget \<Rightarrow> (True, w\<lparr> wvalue := QBool (toBool v) \<rparr>)
      | StringWidget t \<Rightarrow>
          (case v of
             QStdString s \<Rightarrow>
               (True, w\<lparr> wvalue := QStdString (toStdString (fromStdString s)),
                         widgets := map (\<lambda>c. set_text c (fromStdString s)) (widgets w) \<rparr>)
           | _ \<Rightarrow> (False, w))
      | GeometryWidget \<Rightarrow>
          (case v of QGeometry g \<Rightarrow> (True, w\<lparr> wvalue := v \<rparr>) | _ \<Rightarrow> (False, w))
      | Pose3dWidget \<Rightarrow>
          (case v of
             QPose3d p \<Rightarrow>
               (True, w\<lparr> wvalue := v,
                         widgets := set_spins (widgets w)
                           [vx (Pos p), vy (Pos p), vz (Pos p),
                            vx (Euler X (Rot p)), vy (Euler X (Rot p)), vz (Euler X (Rot p))] \<rparr>)
           | _ \<Rightarrow> (False, w))
      | Vector3dWidget \<Rightarrow>
          (case v of
             QVector3d u \<Rightarrow> (True, w\<lparr> wvalue := v, widgets := set_spins (widgets w) [vx u, vy u, vz u] \<rparr>)
           | _ \<Rightarrow> (False, w))
      | ColorWidget \<Rightarrow>
          (case v of
             QColor c \<Rightarrow> (True, w\<lparr> wvalue := v, widgets := set_spins (widgets w) [cr c, cg c, cb c, ca c] \<rparr>)
           | _ \<Rightarrow> (False, w))
      | _ \<Rightarrow> (False, w))"

definition Value :: "PropertyWidget \<Rightarrow> qvariant" where
  "Value w = wvalue w"

text \<open>\<open>configChildWidget->SetValue(v)\<close> on the object a pointer leads to.\<close>

definition call_SetValue :: "ext \<Rightarrow> MessageWidget \<Rightarrow> nat \<Rightarrow> qvariant \<Rightarrow> error + MessageWidget" where
  "call_SetValue X st a v = bindE (deref st a) (\<lambda>w. Inr (store st a (snd (SetValue X w v))))"

section \<open>Enum and density widgets\<close>

text \<open>
  \<open>MessageWidget::CreateEnumWidget\<close>: a combo box filled, item by item, with the
  translated C strings of the values; the combo box is the only entry of \<open>widgets\<close>.
\<close>

definition CreateEnumWidget :: "string \<Rightarrow> string list \<Rightarrow> int \<Rightarrow> PropertyWidget" where
  "CreateEnumWidget key values level =
     blank_widget\<lparr> wclass := EnumWidget,
                   widgets := [foldl (\<lambda>c v. addItem c (tr (c_str v))) (QComboBox [] (- 1)) values] \<rparr>"

text \<open>
  \<open>MessageWidget::CreateDensityWidget\<close>: a combo box with the one item "Custom...", and
  a spin box set to 1.0; \<open>comboBox\<close> and \<open>spinBox\<close> are \<open>widgets[0]\<close> and \<open>widgets[1]\<close>.
  The member \<open>density\<close> is not initialised by the constructor; it is written by
  \<open>SetDensity\<close> before it is read.
\<close>

definition CreateDensityWidget :: "string \<Rightarrow> int \<Rightarrow> PropertyWidget" where
  "CreateDensityWidget key level =
     blank_widget\<lparr> wclass := DensityWidget,
                   widgets := [addItem (QComboBox [] (- 1)) (tr ''Custom...''), QDoubleSpinBox (Finite 1)] \<rparr>"

text \<open>\<open>matDensity >= 0\<close> on a double.\<close>

fun fp_nonneg :: "fp \<Rightarrow> bool" where
  "fp_nonneg (Finite a) = (0 \<le> a)"
| "fp_nonneg PosInf = True"
| "fp_nonneg _ = False"

text \<open>\<open>DensityWidget::SetDensity\<close>.\<close>

definition SetDensity :: "ext \<Rightarrow> PropertyWidget \<Rightarrow> fp \<Rightarrow> error + PropertyWidget" where
  "SetDensity X w d =
     (case widgets w of
        [QComboBox items idx, QDoubleSpinBox old] \<Rightarrow>
          Inr (w\<lparr> widgets :=
                    [if fp_nonneg (MaterialDensity_Nearest X d) then QComboBox items idx
                     else QComboBox items (int (length items) - 1),
                     QDoubleSpinBox d],
                  density := d \<rparr>)
      | _ \<Rightarrow> Inl UndefinedBehaviour)"

definition Density :: "PropertyWidget \<Rightarrow> fp" where
  "Density w = density w"

text \<open>\<open>MessageWidget::UpdateDensityWidget\<close>.\<close>

definition UpdateDensityWidget :: "ext \<Rightarrow> PropertyWidget \<Rightarrow> fp \<Rightarrow> error + (bool \<times> PropertyWidget)" where
  "UpdateDensityWidget X w v =
     (if wclass w = DensityWidget then bindE (SetDensity X w v) (\<lambda>w'. Inr (True, w'))
      else Inr (False, w))"

text \<open>\<open>MessageWidget::UpdateEnumWidget\<close>.\<close>

definition UpdateEnumWidget :: "PropertyWidget \<Rightarrow> string \<Rightarrow> bool \<times> PropertyWidget" where
  "UpdateEnumWidget w v =
     (if length (widgets w) \<noteq> 1 then (False, w)
      else case widgets w ! 0 of
             QComboBox items idx \<Rightarrow>
               (let index = findText items (tr (c_str v))
                in if index < 0 then (False, w)
                   else (True, w\<lparr> widgets := [QComboBox items index] \<rparr>))
           | _ \<Rightarrow> (False, w))"

text \<open>\<open>MessageWidget::EnumWidgetValue(PropertyWidget *)\<close>.\<close>

definition EnumWidgetValue_of :: "PropertyWidget \<Rightarrow> error + string" where
  "EnumWidgetValue_of w =
     (if length (widgets w) \<noteq> 1 then Inr []
      else case widgets w ! 0 of
             QComboBox items idx \<Rightarrow> Inr (toStdString (currentText items idx))
           | _ \<Rightarrow> Inl UndefinedBehaviour)"

text \<open>\<open>MessageWidget::SetEnumWidgetValue\<close> and \<open>EnumWidgetValue(name)\<close>.\<close>

definition SetEnumWidgetValue ::
  "MessageWidget \<Rightarrow> string \<Rightarrow> string \<Rightarrow> error + (bool \<times> MessageWidget)" where
  "SetEnumWidgetValue st name v =
     (case find_widget st name of
        Some a \<Rightarrow>
          bindE (deref st a) (\<lambda>w. Inr (fst (UpdateEnumWidget w v), store st a (snd (UpdateEnumWidget w v))))
      | None \<Rightarrow> Inr (False, st))"

definition EnumWidgetValue :: "MessageWidget \<Rightarrow> string \<Rightarrow> error + string" where
  "EnumWidgetValue st name =
     (case find_widget st name of
        Some a \<Rightarrow> bindE (deref st a) EnumWidgetValue_of
      | None \<Rightarrow> Inr [])"

text \<open>
  \<open>MessageWidget::AddItemEnumWidget\<close>. The \<open>dynamic_cast\<close> to \<open>EnumWidget\<close> gives a null
  pointer on a widget of another class, and the pointer is followed without a test.
\<close>

definition AddItemEnumWidget ::
  "MessageWidget \<Rightarrow> string \<Rightarrow> string \<Rightarrow> error + (bool \<times> MessageWidget)" where
  "AddItemEnumWidget st name itemText =
     (case find_widget st name of
        None \<Rightarrow> Inr (False, st)
      | Some a \<Rightarrow>
          bindE (deref st a) (\<lambda>w.
            if wclass w \<noteq> EnumWidget then Inl UndefinedBehaviour
            else if length (widgets w) \<noteq> 1 then Inr (False, st)
            else case widgets w ! 0 of
                   QComboBox items idx \<Rightarrow>
                     Inr (True, store st a
                                  (w\<lparr> widgets := [addItem (QComboBox items idx) (fromStdString itemText)] \<rparr>))
                 | _ \<Rightarrow> Inr (False, st)))"

text \<open>\<open>MessageWidget::WidgetReadOnly\<close>.\<close>

definition WidgetReadOnly :: "MessageWidget \<Rightarrow> string \<Rightarrow> error + bool" where
  "WidgetReadOnly st name =
     (case find_widget st name of
        Some a \<Rightarrow>
          bindE (deref st a) (\<lambda>w.
            case parentGroup w of
              Some groupEnabled \<Rightarrow> Inr (\<not> groupEnabled)
            | None \<Rightarrow> Inr (\<not> isEnabled w))
      | None \<Rightarrow> Inr False)"

section \<open>MessageWidget::AddPropertyWidget\<close>

text \<open>
  The child is \<open>None\<close> for a null pointer. A non-null child points to a live widget (the
  store is left alone otherwise, where C++ has undefined behaviour).
\<close>

definition AddPropertyWidget ::
  "MessageWidget \<Rightarrow> string \<Rightarrow> nat option \<Rightarrow> bool \<times> MessageWidget" where
  "AddPropertyWidget st name child =
     (case child of
        None \<Rightarrow> (False, st)
      | Some c \<Rightarrow>
          if name = [] then (False, st)
          else if find_widget st name \<noteq> None then (False, st)
          else (True,
                st\<lparr> objects := (objects st)[c := (objects st ! c)\<lparr> scopedName := name \<rparr>],
                    configWidgets := configWidgets st @ [(name, c)] \<rparr>))"

text \<open>\<open>PropertyWidgetCount\<close> is the size of the map: the number of its keys.\<close>

definition PropertyWidgetCount :: "MessageWidget \<Rightarrow> nat" where
  "PropertyWidgetCount st = length (remdups (map fst (configWidgets st)))"

section \<open>MessageWidget::Parse\<close>

text \<open>The scoped name of a field under a parent name.\<close>

definition scoped :: "string \<Rightarrow> string \<Rightarrow> string" where
  "scoped prefix name = (if prefix = [] then name else prefix @ ''::'' @ name)"

text \<open>
  Every case of the switch in \<open>Parse\<close> starts with
  \<open>if (newWidget) { configChildWidget = new W(...); newFieldWidget = configChildWidget; }\<close>,
  where \<open>newWidget\<close> says that the map has no widget under the scoped name. \<open>found\<close> is
  what the map holds there; the result is the state, \<open>configChildWidget\<close> and
  \<open>newFieldWidget\<close>. \<open>set_in\<close> is that step followed by
  \<open>configChildWidget->SetValue(v)\<close>.
\<close>

definition new_or_found ::
  "MessageWidget \<Rightarrow> nat option \<Rightarrow> PropertyWidget \<Rightarrow> MessageWidget \<times> nat \<times> nat option" where
  "new_or_found st found w =
     (case found of
        None \<Rightarrow> (fst (new_object st w), snd (new_object st w), Some (snd (new_object st w)))
      | Some a \<Rightarrow> (st, a, None))"

definition set_in ::
  "ext \<Rightarrow> MessageWidget \<Rightarrow> nat option \<Rightarrow> PropertyWidget \<Rightarrow> qvariant \<Rightarrow> error + (MessageWidget \<times> nat option)" where
  "set_in X st found w v =
     (case new_or_found st found w of
        (st1, configChildWidget, newFieldWidget) \<Rightarrow>
          bindE (call_SetValue X st1 configChildWidget v) (\<lambda>st2. Inr (st2, newFieldWidget)))"

text \<open>
  The scalar cases of the switch in \<open>Parse\<close>: the state after the case, and
  \<open>newFieldWidget\<close>. A double or float that is not equal to itself is shown as 0. The
  64-bit cases read into an \<open>int\<close> and an \<open>unsigned int\<close>, which keep the low 32 bits.
\<close>

definition Parse_scalar ::
  "ext \<Rightarrow> MessageWidget \<Rightarrow> nat option \<Rightarrow> string \<Rightarrow> int \<Rightarrow> fvalue \<Rightarrow> error + (MessageWidget \<times> nat option)" where
  "Parse_scalar X st found name level v =
     (case v of
        VDouble value \<Rightarrow>
          set_in X st found (new_NumberWidget name level NumberWidget_DOUBLE)
            (QDouble (if \<not> math_equal value value then Finite 0 else value))
      | VFloat value \<Rightarrow>
          set_in X st found (new_NumberWidget name level NumberWidget_DOUBLE)
            (QFloat (if \<not> math_equal value value then Finite 0 else value))
      | VInt64 value \<Rightarrow>
          set_in X st found (new_NumberWidget name level NumberWidget_INT) (QInt (ucast value))
      | VUInt64 value \<Rightarrow>
          set_in X st found (new_NumberWidget name level NumberWidget_UINT) (QUInt (ucast value))
      | VInt32 value \<Rightarrow>
          set_in X st found (new_NumberWidget name level NumberWidget_INT) (QInt value)
      | VUInt32 value \<Rightarrow>
          set_in X st found (new_NumberWidget name level NumberWidget_UINT) (QUInt value)
      | VBool value \<Rightarrow>
          set_in X st found (new_BoolWidget name level) (QBool value)
      | VString value \<Rightarrow>
          set_in X st found
            (new_StringWidget name level (if name = ''innerxml'' then ''plain'' else ''line''))
            (QStdString value)
      | VEnum names k \<Rightarrow>
          (case GetEnum names k of
             None \<Rightarrow> Inr (st, None)
           | Some value_name \<Rightarrow>
               (case new_or_found st found (CreateEnumWidget name names level) of
                  (st1, configChildWidget, newFieldWidget) \<Rightarrow>
                    bindE (deref st1 configChildWidget) (\<lambda>w.
                      Inr (store st1 configChildWidget (snd (UpdateEnumWidget w value_name)),
                           newFieldWidget))))
      | _ \<Rightarrow> Inr (st, None))"

text \<open>
  \<open>GetDescriptor()->field(i)\<close>, and \<open>GetReflection()->GetDouble\<close> on a field. A null
  descriptor, an index past the fields, a null reflection and a null field are undefined
  behaviour; a getter called on a repeated field or on a field of another type is a fatal
  error of the protobuf library.
\<close>

definition field_at :: "message \<Rightarrow> nat \<Rightarrow> error + slot" where
  "field_at m i =
     (if \<not> has_descriptor m then Inl UndefinedBehaviour
      else if length (slots m) \<le> i then Inl UndefinedBehaviour
      else Inr (slots m ! i))"

definition GetDouble :: "message \<Rightarrow> slot \<Rightarrow> error + fp" where
  "GetDouble m f =
     (if \<not> has_reflection m then Inl UndefinedBehaviour
      else case f of
             NullField \<Rightarrow> Inl UndefinedBehaviour
           | Field n rep h v \<Rightarrow>
               if rep then Inl FatalError
               else case v of VDouble d \<Rightarrow> Inr d | _ \<Rightarrow> Inl FatalError)"

definition ParseVector3d :: "message \<Rightarrow> error + vector3d" where
  "ParseVector3d m =
     bindE (bindE (field_at m 1) (GetDouble m)) (\<lambda>v0.
     bindE (bindE (field_at m 2) (GetDouble m)) (\<lambda>v1.
     bindE (bindE (field_at m 3) (GetDouble m)) (\<lambda>v2.
     Inr (Vector3d v0 v1 v2))))"

text \<open>The quaternion block of the Pose case of \<open>Parse\<close> (the loop over k = 1..4).\<close>

definition Parse_Quaternion :: "message \<Rightarrow> error + quaterniond" where
  "Parse_Quaternion m =
     bindE (bindE (field_at m 1) (GetDouble m)) (\<lambda>v0.
     bindE (bindE (field_at m 2) (GetDouble m)) (\<lambda>v1.
     bindE (bindE (field_at m 3) (GetDouble m)) (\<lambda>v2.
     bindE (bindE (field_at m 4) (GetDouble m)) (\<lambda>v3.
     Inr (Quaterniond v3 v0 v1 v2)))))"

text \<open>
  The loop of the Pose case over the fields of the pose message. \<open>MutableMessage\<close> on a
  position or orientation field sets its has-bit.
\<close>

fun Parse_Pose_fields :: "bool \<Rightarrow> slot list \<Rightarrow> pose3d \<Rightarrow> error + (slot list \<times> pose3d)" where
  "Parse_Pose_fields r [] val = Inr ([], val)"
| "Parse_Pose_fields r (NullField # rest) val = Inl UndefinedBehaviour"
| "Parse_Pose_fields r (Field n rep h v # rest) val =
     (case v of
        VMessage t m \<Rightarrow>
          if t = ''Vector3d'' \<or> t = ''Quaternion'' then
            (if \<not> r then Inl UndefinedBehaviour
             else if rep then Inl FatalError
             else bindE (if t = ''Vector3d''
                         then bindE (ParseVector3d m) (\<lambda>vec3. Inr (Pose3d vec3 (Rot val)))
                         else bindE (Parse_Quaternion m) (\<lambda>quat. Inr (Pose3d (Pos val) quat)))
                    (\<lambda>val1.
                       bindE (Parse_Pose_fields r rest val1) (\<lambda>res.
                         Inr (Field n rep True v # fst res, snd res))))
          else bindE (Parse_Pose_fields r rest val) (\<lambda>res. Inr (Field n rep h v # fst res, snd res))
      | _ \<Rightarrow> bindE (Parse_Pose_fields r rest val) (\<lambda>res. Inr (Field n rep h v # fst res, snd res)))"

text \<open>A default-constructed \<open>math::Pose3d\<close>: the origin and the identity rotation.\<close>

definition Pose3d_Zero :: pose3d where
  "Pose3d_Zero = Pose3d (Vector3d (Finite 0) (Finite 0) (Finite 0))
                        (Quaterniond (Finite 1) (Finite 0) (Finite 0) (Finite 0))"

definition Parse_Pose :: "message \<Rightarrow> error + (message \<times> pose3d)" where
  "Parse_Pose m =
     (if \<not> has_descriptor m then Inl UndefinedBehaviour
      else bindE (Parse_Pose_fields (has_reflection m) (slots m) Pose3d_Zero) (\<lambda>res.
             Inr (Message (has_descriptor m) (has_reflection m) (fst res), snd res)))"

text \<open>The loop of the Color case: fields 1 .. n, an unset field counting as 0.\<close>

definition Color_field :: "message \<Rightarrow> nat \<Rightarrow> error + fp" where
  "Color_field m j =
     bindE (field_at m j) (\<lambda>f.
       if \<not> has_reflection m then Inl UndefinedBehaviour
       else case f of
              NullField \<Rightarrow> Inl UndefinedBehaviour
            | Field n rep h v \<Rightarrow>
                if rep then Inl FatalError
                else if h then (case v of VFloat x \<Rightarrow> Inr x | _ \<Rightarrow> Inl FatalError)
                else Inr (Finite 0))"

fun mapE :: "('a \<Rightarrow> error + 'b) \<Rightarrow> 'a list \<Rightarrow> error + 'b list" where
  "mapE f [] = Inr []"
| "mapE f (x # xs) = bindE (f x) (\<lambda>y. bindE (mapE f xs) (\<lambda>ys. Inr (y # ys)))"

definition Parse_Color :: "message \<Rightarrow> nat \<Rightarrow> error + color" where
  "Parse_Color m n =
     bindE (mapE (Color_field m) [1 ..< Suc n]) (\<lambda>vals.
       case vals of
         v0 # v1 # v2 # v3 # others \<Rightarrow> Inr (Color v0 v1 v2 v3)
       | _ \<Rightarrow> Inl UndefinedBehaviour)"

text \<open>The loop of the Density case: the last field named "density" gives the value.\<close>

fun Parse_Density_fields :: "bool \<Rightarrow> slot list \<Rightarrow> fp \<Rightarrow> error + fp" where
  "Parse_Density_fields r [] d = Inr d"
| "Parse_Density_fields r (NullField # rest) d = Parse_Density_fields r rest d"
| "Parse_Density_fields r (Field n rep h v # rest) d =
     (if n = ''density'' then
        (if \<not> r then Inl UndefinedBehaviour
         else if rep then Inl FatalError
         else case v of VDouble x \<Rightarrow> Parse_Density_fields r rest x | _ \<Rightarrow> Inl FatalError)
      else Parse_Density_fields r rest d)"

definition Parse_Density :: "message \<Rightarrow> error + fp" where
  "Parse_Density m =
     (if \<not> has_descriptor m then Inl UndefinedBehaviour
      else Parse_Density_fields (has_reflection m) (slots m) (Finite 1))"

definition is_special :: "string \<Rightarrow> bool" where
  "is_special t \<longleftrightarrow> t \<in> {''Geometry'', ''Pose'', ''Vector3d'', ''Color'', ''Density''}"

text \<open>
  The cases of \<open>Parse\<close> for the message types that get a widget of their own. The result is
  the state, the value message (changed by \<open>MutableMessage\<close>) and \<open>newFieldWidget\<close>.
\<close>

definition Parse_special ::
  "ext \<Rightarrow> MessageWidget \<Rightarrow> nat option \<Rightarrow> string \<Rightarrow> int \<Rightarrow> string \<Rightarrow> message
     \<Rightarrow> error + (MessageWidget \<times> message \<times> nat option)" where
  "Parse_special X st found name level t valueMsg =
     (if t = ''Geometry'' then
        bindE (set_in X st found (new_GeometryWidget name level) (QGeometry valueMsg))
          (\<lambda>res. Inr (fst res, valueMsg, snd res))
      else if t = ''Pose'' then
        (case new_or_found st found (new_Pose3dWidget name level) of
           (st1, configChildWidget, newFieldWidget) \<Rightarrow>
             bindE (Parse_Pose valueMsg) (\<lambda>res.
             bindE (call_SetValue X st1 configChildWidget (QPose3d (snd res))) (\<lambda>st2.
             Inr (st2, fst res, newFieldWidget))))
      else if t = ''Vector3d'' then
        (case new_or_found st found (new_Vector3dWidget name level) of
           (st1, configChildWidget, newFieldWidget) \<Rightarrow>
             bindE (ParseVector3d valueMsg) (\<lambda>vec3.
             bindE (call_SetValue X st1 configChildWidget (QVector3d vec3)) (\<lambda>st2.
             Inr (st2, valueMsg, newFieldWidget))))
      else if t = ''Color'' then
        (case new_or_found st found (new_ColorWidget name level) of
           (st1, configChildWidget, newFieldWidget) \<Rightarrow>
             bindE (deref st1 configChildWidget) (\<lambda>w.
             bindE (Parse_Color valueMsg (length (widgets w))) (\<lambda>c.
             bindE (call_SetValue X st1 configChildWidget (QColor c)) (\<lambda>st2.
             Inr (st2, valueMsg, newFieldWidget)))))
      else
        (case new_or_found st found (CreateDensityWidget name level) of
           (st1, configChildWidget, newFieldWidget) \<Rightarrow>
             bindE (Parse_Density valueMsg) (\<lambda>d.
             bindE (deref st1 configChildWidget) (\<lambda>w.
             bindE (UpdateDensityWidget X w d) (\<lambda>res.
             Inr (store st1 configChildWidget (snd res), valueMsg, newFieldWidget))))))"

text \<open>
  \<open>new CollapsibleWidget(name, childWidget, level)\<close>: the child gets the new, enabled
  collapsible widget as its parent.
\<close>

definition make_group :: "MessageWidget \<Rightarrow> bool \<Rightarrow> nat option \<Rightarrow> MessageWidget" where
  "make_group st newWidget newFieldWidget =
     (case newFieldWidget of
        Some a \<Rightarrow> if newWidget then store st a ((objects st ! a)\<lparr> parentGroup := Some True \<rparr>) else st
      | None \<Rightarrow> st)"

text \<open>
  The end of the loop body: a new field widget is pushed on \<open>newWidgets\<close> and stored in
  the map under the scoped name.
\<close>

definition register_new ::
  "MessageWidget \<Rightarrow> string \<Rightarrow> bool \<Rightarrow> nat option \<Rightarrow> MessageWidget \<times> nat list" where
  "register_new st key newWidget newFieldWidget =
     (case newFieldWidget of
        Some a \<Rightarrow>
          if newWidget then (snd (AddPropertyWidget st key (Some a)), [a]) else (st, [])
      | None \<Rightarrow> (st, []))"

text \<open>The group box returned by \<open>Parse\<close>, wrapped for the field of a nested message.\<close>

definition wrap_group ::
  "MessageWidget \<times> message \<times> nat list option \<Rightarrow> MessageWidget \<times> message \<times> nat option" where
  "wrap_group res =
     (case res of
        (st, m, groupBoxWidget) \<Rightarrow>
          (case groupBoxWidget of
             None \<Rightarrow> (st, m, None)
           | Some ws \<Rightarrow>
               (fst (new_object st (new_PropertyWidget ws)), m,
                Some (snd (new_object st (new_PropertyWidget ws))))))"

definition skip_field ::
  "slot \<Rightarrow> error + (MessageWidget \<times> slot list \<times> nat list option)
        \<Rightarrow> error + (MessageWidget \<times> slot list \<times> nat list option)" where
  "skip_field s res = bindE res (\<lambda>(st, rest, new). Inr (st, s # rest, new))"

definition push_field ::
  "slot \<Rightarrow> nat list \<Rightarrow> error + (MessageWidget \<times> slot list \<times> nat list option)
        \<Rightarrow> error + (MessageWidget \<times> slot list \<times> nat list option)" where
  "push_field s pushed res =
     bindE res (\<lambda>(st, rest, new). Inr (st, s # rest, map_option (\<lambda>ws. pushed @ ws) new))"

definition group_box :: "nat list option \<Rightarrow> nat list option" where
  "group_box new = (case new of None \<Rightarrow> None | Some ws \<Rightarrow> if ws = [] then None else Some ws)"

function (sequential)
  Parse :: "ext \<Rightarrow> MessageWidget \<Rightarrow> message \<Rightarrow> bool \<Rightarrow> string \<Rightarrow> int
              \<Rightarrow> error + (MessageWidget \<times> message \<times> nat list option)"
and Parse_fields :: "ext \<Rightarrow> MessageWidget \<Rightarrow> bool \<Rightarrow> bool \<Rightarrow> string \<Rightarrow> int \<Rightarrow> slot list
              \<Rightarrow> error + (MessageWidget \<times> slot list \<times> nat list option)"
where
  "Parse X st (Message d r fs) update name level =
     (if \<not> d then Inr (st, Message d r fs, None)
      else bindE (Parse_fields X st r update name level fs) (\<lambda>res.
             Inr (fst res, Message d r (fst (snd res)), group_box (snd (snd res)))))"
| "Parse_fields X st r update name level [] = Inr (st, [], Some [])"
| "Parse_fields X st r update name level (NullField # rest) = Inr (st, NullField # rest, None)"
| "Parse_fields X st r update name level (Field n rep h v # rest) =
     (if \<not> r then Inr (st, Field n rep h v # rest, None)
      else if rep then skip_field (Field n rep h v) (Parse_fields X st r update name level rest)
      else if update \<and> \<not> h then skip_field (Field n rep h v) (Parse_fields X st r update name level rest)
      else
        bindE
          (case v of
             VMessage t valueMsg \<Rightarrow>
               bindE (if is_special t
                      then Parse_special X st (find_widget st (scoped name n)) n level t valueMsg
                      else bindE (Parse X st valueMsg update (scoped name n) (level + 1))
                             (\<lambda>res. Inr (wrap_group res)))
                 (\<lambda>res. Inr (make_group (fst res) (find_widget st (scoped name n) = None) (snd (snd res)),
                            Field n rep True (VMessage t (fst (snd res))),
                            snd (snd res)))
           | _ \<Rightarrow>
               bindE (Parse_scalar X st (find_widget st (scoped name n)) n level v)
                 (\<lambda>res. Inr (fst res, Field n rep h v, snd res)))
          (\<lambda>res.
             push_field (fst (snd res))
               (snd (register_new (fst res) (scoped name n)
                      (find_widget st (scoped name n) = None) (snd (snd res))))
               (Parse_fields X
                  (fst (register_new (fst res) (scoped name n)
                         (find_widget st (scoped name n) = None) (snd (snd res))))
                  r update name level rest)))"
  by pat_completeness auto
termination
  by (relation "measure (\<lambda>x. case x of
                   Inl (X, st, m, update, name, level) \<Rightarrow> size m
                 | Inr (X, st, r, update, name, level, fs) \<Rightarrow> size_list size fs)")
     auto

section \<open>MessageWidget::UpdateMsg\<close>

text \<open>\<open>EnumDescriptor::FindValueByName\<close>: the position of the value of that name.\<close>

fun FindValueByName :: "string list \<Rightarrow> string \<Rightarrow> nat option" where
  "FindValueByName [] s = None"
| "FindValueByName (x # xs) s = (if x = s then Some 0 else map_option Suc (FindValueByName xs s))"

text \<open>
  The scalar cases of the switch in \<open>UpdateMsg\<close>: the field as it is after the case. A
  setter of reflection stores the value and sets the has-bit. \<open>SetFloat\<close> takes the double
  of \<open>toDouble\<close> converted to \<open>float\<close>, \<open>SetInt64\<close> the \<open>int\<close> of \<open>toInt\<close>
  sign-extended, \<open>SetUInt64\<close> the \<open>unsigned int\<close> of \<open>toUInt\<close> zero-extended.
\<close>

definition UpdateMsg_scalar ::
  "ext \<Rightarrow> PropertyWidget \<Rightarrow> string \<Rightarrow> bool \<Rightarrow> bool \<Rightarrow> fvalue \<Rightarrow> error + slot" where
  "UpdateMsg_scalar X childWidget n rep h v =
     (case v of
        VDouble old \<Rightarrow> Inr (Field n rep True (VDouble (toDouble (Value childWidget))))
      | VFloat old \<Rightarrow>
          Inr (Field n rep True (VFloat (float_of_double (toDouble (Value childWidget)))))
      | VInt64 old \<Rightarrow> Inr (Field n rep True (VInt64 (scast (toInt X (Value childWidget)))))
      | VUInt64 old \<Rightarrow> Inr (Field n rep True (VUInt64 (ucast (toUInt X (Value childWidget)))))
      | VInt32 old \<Rightarrow> Inr (Field n rep True (VInt32 (toInt X (Value childWidget))))
      | VUInt32 old \<Rightarrow> Inr (Field n rep True (VUInt32 (toUInt X (Value childWidget))))
      | VBool old \<Rightarrow> Inr (Field n rep True (VBool (toBool (Value childWidget))))
      | VString old \<Rightarrow>
          (case widgets childWidget of
             [] \<Rightarrow> Inl UndefinedBehaviour
           | c # cs \<Rightarrow>
               (case c of
                  QLineEdit text \<Rightarrow> Inr (Field n rep True (VString (toStdString text)))
                | QPlainTextEdit text \<Rightarrow>
                    Inr (Field n rep True (VString (toStdString (toPlainText text))))
                | _ \<Rightarrow> Inr (Field n rep h v)))
      | VEnum names k \<Rightarrow>
          (case widgets childWidget of
             [] \<Rightarrow> Inl UndefinedBehaviour
           | c # cs \<Rightarrow>
               (case c of
                  QComboBox items idx \<Rightarrow>
                    (case FindValueByName names (toStdString (currentText items idx)) of
                       Some k' \<Rightarrow> Inr (Field n rep True (VEnum names k'))
                     | None \<Rightarrow> Inr (Field n rep h v))
                | _ \<Rightarrow> Inr (Field n rep h v)))
      | _ \<Rightarrow> Inr (Field n rep h v))"

text \<open>Writing field \<open>i\<close> of a message through a setter of reflection.\<close>

definition set_field :: "message \<Rightarrow> nat \<Rightarrow> (bool \<Rightarrow> slot \<Rightarrow> error + slot) \<Rightarrow> error + message" where
  "set_field m i f =
     bindE (field_at m i) (\<lambda>s.
     bindE (f (has_reflection m) s) (\<lambda>s'.
     Inr (Message (has_descriptor m) (has_reflection m) ((slots m)[i := s']))))"

definition SetDouble :: "fp \<Rightarrow> bool \<Rightarrow> slot \<Rightarrow> error + slot" where
  "SetDouble d r s =
     (if \<not> r then Inl UndefinedBehaviour
      else case s of
             NullField \<Rightarrow> Inl UndefinedBehaviour
           | Field n rep h v \<Rightarrow>
               if rep then Inl FatalError
               else case v of VDouble old \<Rightarrow> Inr (Field n rep True (VDouble d)) | _ \<Rightarrow> Inl FatalError)"

definition SetFloat :: "fp \<Rightarrow> bool \<Rightarrow> slot \<Rightarrow> error + slot" where
  "SetFloat d r s =
     (if \<not> r then Inl UndefinedBehaviour
      else case s of
             NullField \<Rightarrow> Inl UndefinedBehaviour
           | Field n rep h v \<Rightarrow>
               if rep then Inl FatalError
               else case v of
                      VFloat old \<Rightarrow> Inr (Field n rep True (VFloat (float_of_double d)))
                    | _ \<Rightarrow> Inl FatalError)"

text \<open>
  \<open>MessageWidget::UpdateVector3dMsg\<close>: fields 1, 2, 3 get x, y, z; a field that is not a
  double is reported and skipped.
\<close>

definition UpdateVector3d_field :: "fp \<Rightarrow> bool \<Rightarrow> slot \<Rightarrow> error + slot" where
  "UpdateVector3d_field d r s =
     (case s of
        NullField \<Rightarrow> Inl UndefinedBehaviour
      | Field n rep h v \<Rightarrow> (case v of VDouble old \<Rightarrow> SetDouble d r s | _ \<Rightarrow> Inr s))"

definition UpdateVector3dMsg :: "message \<Rightarrow> vector3d \<Rightarrow> error + message" where
  "UpdateVector3dMsg m v =
     bindE (set_field m 1 (UpdateVector3d_field (vx v))) (\<lambda>m1.
     bindE (set_field m1 2 (UpdateVector3d_field (vy v))) (\<lambda>m2.
     set_field m2 3 (UpdateVector3d_field (vz v))))"

text \<open>\<open>qobject_cast<QDoubleSpinBox *>(widget)->value()\<close>.\<close>

definition spin_value :: "qwidget \<Rightarrow> error + fp" where
  "spin_value c = (case c of QDoubleSpinBox x \<Rightarrow> Inr x | _ \<Rightarrow> Inl UndefinedBehaviour)"

definition vec_at :: "'a list \<Rightarrow> nat \<Rightarrow> error + 'a" where
  "vec_at xs i = (if i < length xs then Inr (xs ! i) else Inl UndefinedBehaviour)"

text \<open>The quaternion block of the Pose case of \<open>UpdateMsg\<close>: fields 1 .. 4 get x, y, z, w.\<close>

definition UpdateMsg_Quaternion :: "message \<Rightarrow> quaterniond \<Rightarrow> error + message" where
  "UpdateMsg_Quaternion m quat =
     bindE (set_field m 1 (SetDouble (qx quat))) (\<lambda>m1.
     bindE (set_field m1 2 (SetDouble (qy quat))) (\<lambda>m2.
     bindE (set_field m2 3 (SetDouble (qz quat))) (\<lambda>m3.
     set_field m3 4 (SetDouble (qw quat)))))"

text \<open>The loop of the Pose case over the fields of the pose message.\<close>

fun UpdateMsg_Pose_fields ::
  "ext \<Rightarrow> PropertyWidget \<Rightarrow> bool \<Rightarrow> slot list \<Rightarrow> error + slot list" where
  "UpdateMsg_Pose_fields X childWidget r [] = Inr []"
| "UpdateMsg_Pose_fields X childWidget r (NullField # rest) = Inl UndefinedBehaviour"
| "UpdateMsg_Pose_fields X childWidget r (Field n rep h v # rest) =
     bindE
       (case v of
          VMessage t m \<Rightarrow>
            bindE (mapE spin_value (widgets childWidget)) (\<lambda>vals.
              if t = ''Vector3d'' then
                (if \<not> r then Inl UndefinedBehaviour
                 else if rep then Inl FatalError
                 else bindE (vec_at vals 0) (\<lambda>v0. bindE (vec_at vals 1) (\<lambda>v1. bindE (vec_at vals 2) (\<lambda>v2.
                      bindE (UpdateVector3dMsg m (Vector3d v0 v1 v2)) (\<lambda>m'.
                      Inr (Field n rep True (VMessage t m')))))))
              else if t = ''Quaternion'' then
                (if \<not> r then Inl UndefinedBehaviour
                 else if rep then Inl FatalError
                 else bindE (vec_at vals 3) (\<lambda>v3. bindE (vec_at vals 4) (\<lambda>v4. bindE (vec_at vals 5) (\<lambda>v5.
                      bindE (UpdateMsg_Quaternion m (Quaterniond_euler X v3 v4 v5)) (\<lambda>m'.
                      Inr (Field n rep True (VMessage t m')))))))
              else Inr (Field n rep h v))
        | _ \<Rightarrow> Inr (Field n rep h v))
       (\<lambda>s. bindE (UpdateMsg_Pose_fields X childWidget r rest) (\<lambda>rest'. Inr (s # rest')))"

text \<open>The loop of the Color case: field \<open>j + 1\<close> gets the value of spin box \<open>j\<close>.\<close>

fun UpdateMsg_Color_fields :: "message \<Rightarrow> nat \<Rightarrow> qwidget list \<Rightarrow> error + message" where
  "UpdateMsg_Color_fields m j [] = Inr m"
| "UpdateMsg_Color_fields m j (c # cs) =
     bindE (spin_value c) (\<lambda>x.
     bindE (set_field m (j + 1) (SetFloat x)) (\<lambda>m'.
     UpdateMsg_Color_fields m' (j + 1) cs))"

text \<open>\<open>Descriptor::FindFieldByName\<close>: the index of the field of that name.\<close>

fun FindFieldByName :: "slot list \<Rightarrow> string \<Rightarrow> nat option" where
  "FindFieldByName [] s = None"
| "FindFieldByName (NullField # fs) s = map_option Suc (FindFieldByName fs s)"
| "FindFieldByName (Field n rep h v # fs) s =
     (if n = s then Some 0 else map_option Suc (FindFieldByName fs s))"

text \<open>
  The cases of \<open>UpdateMsg\<close> for the message types with a widget of their own: the value
  message as it is after the case.
\<close>

definition UpdateMsg_special ::
  "ext \<Rightarrow> PropertyWidget \<Rightarrow> string \<Rightarrow> message \<Rightarrow> error + message" where
  "UpdateMsg_special X childWidget t valueMsg =
     (if t = ''Geometry'' then
        (case Value childWidget of
           QGeometry g \<Rightarrow> Inr g
         | _ \<Rightarrow> Inr (Geometry_default X))
      else if t = ''Pose'' then
        (if \<not> has_descriptor valueMsg then Inl UndefinedBehaviour
         else bindE (UpdateMsg_Pose_fields X childWidget (has_reflection valueMsg) (slots valueMsg))
                (\<lambda>fs. Inr (Message (has_descriptor valueMsg) (has_reflection valueMsg) fs)))
      else if t = ''Vector3d'' then
        bindE (bindE (vec_at (widgets childWidget) 0) spin_value) (\<lambda>v0.
        bindE (bindE (vec_at (widgets childWidget) 1) spin_value) (\<lambda>v1.
        bindE (bindE (vec_at (widgets childWidget) 2) spin_value) (\<lambda>v2.
        UpdateVector3dMsg valueMsg (Vector3d v0 v1 v2))))
      else if t = ''Color'' then
        UpdateMsg_Color_fields valueMsg 0 (widgets childWidget)
      else
        (if wclass childWidget \<noteq> DensityWidget \<or> \<not> has_descriptor valueMsg
         then Inl UndefinedBehaviour
         else case FindFieldByName (slots valueMsg) ''density'' of
                None \<Rightarrow> Inl UndefinedBehaviour
              | Some i \<Rightarrow> set_field valueMsg i (SetDouble (Density childWidget))))"

definition cons_field :: "error + slot \<Rightarrow> error + slot list \<Rightarrow> error + slot list" where
  "cons_field s rest = bindE s (\<lambda>s'. bindE rest (\<lambda>rest'. Inr (s' # rest')))"

text \<open>
  \<open>UpdateMsg\<close> writes the message only: it reads the map and the widgets and changes
  neither, so the state is an argument and not a result.
\<close>

function (sequential)
  UpdateMsg :: "ext \<Rightarrow> MessageWidget \<Rightarrow> message \<Rightarrow> string \<Rightarrow> error + message"
and UpdateMsg_fields :: "ext \<Rightarrow> MessageWidget \<Rightarrow> bool \<Rightarrow> string \<Rightarrow> slot list \<Rightarrow> error + slot list"
where
  "UpdateMsg X st (Message d r fs) name =
     (if \<not> d then Inr (Message d r fs)
      else bindE (UpdateMsg_fields X st r name fs) (\<lambda>fs'. Inr (Message d r fs')))"
| "UpdateMsg_fields X st r name [] = Inr []"
| "UpdateMsg_fields X st r name (NullField # rest) = Inr (NullField # rest)"
| "UpdateMsg_fields X st r name (Field n rep h v # rest) =
     (if \<not> r then Inr (Field n rep h v # rest)
      else
        cons_field
          (if rep then Inr (Field n rep h v)
           else case find_widget st (scoped name n) of
                  None \<Rightarrow> Inr (Field n rep h v)
                | Some a \<Rightarrow>
                    bindE (WidgetReadOnly st (scoped name n)) (\<lambda>readOnly.
                      if readOnly then Inr (Field n rep h v)
                      else
                        bindE (deref st a) (\<lambda>childWidget.
                          case v of
                            VMessage t valueMsg \<Rightarrow>
                              bindE (if is_special t
                                     then UpdateMsg_special X childWidget t valueMsg
                                     else UpdateMsg X st valueMsg (scoped name n))
                                (\<lambda>m. Inr (Field n rep True (VMessage t m)))
                          | _ \<Rightarrow> UpdateMsg_scalar X childWidget n rep h v)))
          (UpdateMsg_fields X st r name rest))"
  by pat_completeness auto
termination
  by (relation "measure (\<lambda>x. case x of
                   Inl (X, st, m, name) \<Rightarrow> size m
                 | Inr (X, st, r, name, fs) \<Rightarrow> size_list size fs)")
     auto

section \<open>Event types\<close>

text \<open>The event classes of namespace \<open>ignition::gui::events\<close>, and Qt's \<open>QEvent::MaxUser\<close>.\<close>

datatype event =
  Render | SnapIntervals | SpawnFromDescription | SpawnFromPath | HoverToScene
| LeftClickToScene | RightClickToScene | DropdownMenuEnabled | LeftClickOnScene
| RightClickOnScene | KeyReleaseOnScene | KeyPressOnScene

definition MaxUser :: int where
  "MaxUser = 65535"

fun kType :: "event \<Rightarrow> int" where
  "kType Render = MaxUser"
| "kType SnapIntervals = MaxUser - 1"
| "kType SpawnFromDescription = MaxUser - 2"
| "kType SpawnFromPath = MaxUser - 3"
| "kType HoverToScene = MaxUser - 4"
| "kType LeftClickToScene = MaxUser - 5"
| "kType RightClickToScene = MaxUser - 6"
| "kType DropdownMenuEnabled = MaxUser - 7"
| "kType LeftClickOnScene = MaxUser - 10"
| "kType RightClickOnScene = MaxUser - 11"
| "kType KeyReleaseOnScene = MaxUser - 8"
| "kType KeyPressOnScene = MaxUser - 9"

definition all_events :: "event list" where
  "all_events =
     [Render, SnapIntervals, SpawnFromDescription, SpawnFromPath, HoverToScene,
      LeftClickToScene, RightClickToScene, DropdownMenuEnabled, LeftClickOnScene,
      RightClickOnScene, KeyReleaseOnScene, KeyPressOnScene]"

section \<open>Render bridge\<close>

text \<open>
  Modelled from the spec: \<open>IgnRenderer::Initialize\<close>, \<open>IgnRenderer::Render\<close> and
  \<open>RenderThread::RenderNext\<close> are only declared in the sources (the header of the scene
  plugin, with the members \<open>initialized\<close>, \<open>textureDirty\<close>, \<open>textureId\<close>, \<open>textureSize\<close>
  and \<open>engineName\<close>); their bodies are missing. The spec says: Initialize sets the engine,
  scene and camera up once, behind a guard flag, and a failure (engine or scene not found)
  is logged and leaves the component uninitialized; Render executes one frame, applying a
  pending size change at the start of the pass, and is a no-op on an uninitialized
  component; the render thread signals "texture ready" with the texture id and size for a
  rendered frame. The engines that can be loaded are the environment.
\<close>

record IgnRenderer =
  textureId :: nat
  engineName :: string
  initialized :: bool
  textureSize :: "nat \<times> nat"
  textureDirty :: bool
  frames :: nat

datatype signal = TextureReady nat "nat \<times> nat"

definition IgnRenderer_Initialize :: "string list \<Rightarrow> IgnRenderer \<Rightarrow> IgnRenderer" where
  "IgnRenderer_Initialize engines r =
     (if initialized r then r
      else if engineName r \<in> set engines then r\<lparr> textureId := 1, initialized := True \<rparr>
      else r)"

definition IgnRenderer_Render :: "IgnRenderer \<Rightarrow> IgnRenderer" where
  "IgnRenderer_Render r =
     (if \<not> initialized r then r
      else r\<lparr> textureId := (if textureDirty r then Suc (textureId r) else textureId r),
              textureDirty := False,
              frames := Suc (frames r) \<rparr>)"

definition RenderNext :: "string list \<Rightarrow> IgnRenderer \<Rightarrow> IgnRenderer \<times> signal list" where
  "RenderNext engines r =
     (let r1 = (if \<not> initialized r then IgnRenderer_Initialize engines r else r)
      in if \<not> initialized r1 then (r1, [])
         else (IgnRenderer_Render r1,
               [TextureReady (textureId (IgnRenderer_Render r1)) (textureSize (IgnRenderer_Render r1))]))"

text \<open>\<open>n\<close> calls of \<open>RenderNext\<close>, with the signals they emit in order.\<close>

fun RenderNext_times :: "nat \<Rightarrow> string list \<Rightarrow> IgnRenderer \<Rightarrow> IgnRenderer \<times> signal list" where
  "RenderNext_times 0 engines r = (r, [])"
| "RenderNext_times (Suc n) engines r =
     (case RenderNext engines r of
        (r1, out1) \<Rightarrow> (case RenderNext_times n engines r1 of (r2, out2) \<Rightarrow> (r2, out1 @ out2)))"

fun Render_times :: "nat \<Rightarrow> IgnRenderer \<Rightarrow> IgnRenderer" where
  "Render_times 0 r = r"
| "Render_times (Suc n) r = Render_times n (IgnRenderer_Render r)"

section \<open>Predicates and sample states for the statements\<close>

text \<open>
  A field that \<open>Parse\<close> passes over in update mode: repeated, or non-repeated with
  \<open>HasField\<close> false. No field of a message is set when every field is like that (a null
  field descriptor counts as such).
\<close>

definition unset_or_repeated :: "slot \<Rightarrow> bool" where
  "unset_or_repeated s = (case s of NullField \<Rightarrow> True | Field n rep h v \<Rightarrow> rep \<or> \<not> h)"

definition no_field_set :: "message \<Rightarrow> bool" where
  "no_field_set m = list_all unset_or_repeated (slots m)"

text \<open>A field of a scalar type: anything but a message.\<close>

definition scalar_value :: "fvalue \<Rightarrow> bool" where
  "scalar_value v = (case v of VMessage t m \<Rightarrow> False | _ \<Rightarrow> True)"



text \<open>An enum widget as CreateEnumWidget builds it: class EnumWidget, one combo box.\<close>

definition enum_widget :: "PropertyWidget \<Rightarrow> string list \<Rightarrow> int \<Rightarrow> bool" where
  "enum_widget w items idx \<longleftrightarrow> wclass w = EnumWidget \<and> widgets w = [QComboBox items idx]"

text \<open>Sample values for the closed instances below.\<close>

definition sample_ext :: ext where
  "sample_ext = \<lparr> Euler = (\<lambda>q. Vector3d (Finite 0) (Finite 0) (Finite 0)),
                  Quaterniond_euler = (\<lambda>r p y. Quaterniond (Finite 1) (Finite 0) (Finite 0) (Finite 0)),
                  MaterialDensity_Nearest = (\<lambda>d. Finite (- 1)),
                  qRound64 = (\<lambda>d. 0),
                  Geometry_default = Message True True [] \<rparr>"

definition sample_state :: MessageWidget where
  "sample_state =
     \<lparr> configWidgets = [(''mass'', 0), (''name'', 1)],
       objects = [(new_NumberWidget ''mass'' 0 NumberWidget_DOUBLE)
                    \<lparr> wvalue := QDouble (Finite 5), scopedName := ''mass'', isEnabled := False \<rparr>,
                  (new_StringWidget ''name'' 0 ''line'')
                    \<lparr> widgets := [QLineEdit ''box''], wvalue := QStdString ''box'',
                      scopedName := ''name'' \<rparr>] \<rparr>"





definition enum_state :: MessageWidget where
  "enum_state = \<lparr> configWidgets = [(''type'', 0)],
                   objects = [(CreateEnumWidget ''type'' [''BOX'', ''SPHERE''] 0)\<lparr> scopedName := ''type'' \<rparr>] \<rparr>"

definition nul_text :: string where
  "nul_text = [CHR ''a'', CHR 0x00, CHR ''b'']"

section \<open>Parse followed by UpdateMsg\<close>

text \<open>\<open>Parse\<close> on a message, then \<open>UpdateMsg\<close> on the message it leaves, with the widgets it leaves.\<close>

definition Parse_then_UpdateMsg ::
  "ext \<Rightarrow> MessageWidget \<Rightarrow> message \<Rightarrow> bool \<Rightarrow> string \<Rightarrow> int \<Rightarrow> error + message" where
  "Parse_then_UpdateMsg X st msg update name level =
     bindE (Parse X st msg update name level) (\<lambda>res. UpdateMsg X (fst res) (fst (snd res)) name)"

text \<open>
  Well-formed UTF-8 with no byte-order mark in front: the bytes are a row of well-formed
  sequences (the counter of \<open>well_formed_from\<close> is the number of bytes of the current
  sequence still to come), and the first of them is not U+FEFF.
\<close>

fun well_formed_from :: "nat \<Rightarrow> string \<Rightarrow> bool" where
  "well_formed_from k [] = True"
| "well_formed_from (Suc k) (c # cs) = well_formed_from k cs"
| "well_formed_from 0 (c # cs) = (utf8_len c cs \<noteq> 0 \<and> well_formed_from (utf8_len c cs - 1) cs)"

definition utf8_text :: "string \<Rightarrow> bool" where
  "utf8_text s \<longleftrightarrow> well_formed_from 0 s \<and> take 3 s \<noteq> [CHR 0xEF, CHR 0xBB, CHR 0xBF]"

text \<open>
  The characters that do not come back from a plain-text edit as they went in, in UTF-8:
  the carriage return, U+2028, U+2029, U+FDD0, U+FDD1 and the no-break space U+00A0. A text
  is free of a list of byte strings when none of them occurs in it.
\<close>

definition plain_breaks :: "string list" where
  "plain_breaks =
     [[CHR 0x0D], [CHR 0xE2, CHR 0x80, CHR 0xA8], [CHR 0xE2, CHR 0x80, CHR 0xA9],
      [CHR 0xEF, CHR 0xB7, CHR 0x90], [CHR 0xEF, CHR 0xB7, CHR 0x91], [CHR 0xC2, CHR 0xA0]]"

fun free_of :: "string list \<Rightarrow> string \<Rightarrow> bool" where
  "free_of ps [] = True"
| "free_of ps (c # cs) = ((\<forall>p\<in>set ps. take (length p) (c # cs) \<noteq> p) \<and> free_of ps cs)"

text \<open>
  The values of scalar fields that pass through a widget unchanged, for a field of name
  \<open>n\<close>: a finite double; a finite float that is a number of the single format (the
  conversion to float leaves it as it is); an int64 or uint64 that fits in the \<open>int\<close> or
  \<open>unsigned int\<close> it is read into; a string of well-formed UTF-8 text with no byte-order
  mark in front, of at most 32767 UTF-16 code units for the line edit, and for the
  plain-text edit of a field named innerxml without carriage return, U+2028, U+2029,
  U+FDD0, U+FDD1 and no-break space; an enum whose descriptor has distinct value names,
  each of them such well-formed text without a NUL byte; and any int32, uint32, bool or
  value of a type the switch leaves alone. A scalar field here is such a value under a non-empty name, not repeated.
  \<open>gets_widget\<close> says whether the switch of \<open>Parse\<close> makes a widget for the value;
  \<open>mark_set\<close> is the field after the round trip: its value kept, its has-bit set when a
  widget was made for it outside update mode.
\<close>

definition comes_back :: "string \<Rightarrow> fvalue \<Rightarrow> bool" where
  "comes_back n v =
     (case v of
        VDouble x \<Rightarrow> math_equal x x
      | VFloat x \<Rightarrow> math_equal x x \<and> float_of_double x = x
      | VInt64 x \<Rightarrow> scast (ucast x :: 32 word) = x
      | VUInt64 x \<Rightarrow> ucast (ucast x :: 32 word) = x
      | VString x \<Rightarrow>
          utf8_text x
          \<and> (if n = ''innerxml'' then free_of plain_breaks x else utf16_length x \<le> 32767)
      | VEnum names k \<Rightarrow>
          distinct names \<and> list_all (\<lambda>s. CHR 0x00 \<notin> set s \<and> utf8_text s) names
      | VMessage t m \<Rightarrow> False
      | _ \<Rightarrow> True)"

definition gets_widget :: "fvalue \<Rightarrow> bool" where
  "gets_widget v =
     (case v of
        VOther t b \<Rightarrow> False
      | VMessage t m \<Rightarrow> False
      | VEnum names k \<Rightarrow> k < length names
      | _ \<Rightarrow> True)"

definition scalar_field :: "slot \<Rightarrow> bool" where
  "scalar_field s =
     (case s of NullField \<Rightarrow> False | Field n rep h v \<Rightarrow> \<not> rep \<and> n \<noteq> [] \<and> comes_back n v)"

definition mark_set :: "bool \<Rightarrow> slot \<Rightarrow> slot" where
  "mark_set update s =
     (case s of
        NullField \<Rightarrow> NullField
      | Field n rep h v \<Rightarrow> Field n rep (h \<or> (\<not> update \<and> gets_widget v)) v)"

text \<open>
  A widget holds a value when it is writable and the scalar case of \<open>UpdateMsg\<close> reads
  that value back from it. A field is tracked by a state when the map leads from its scoped
  name to a widget that holds its value if \<open>Parse\<close> made one (\<open>created\<close>), and to nothing
  otherwise.
\<close>

definition holds :: "ext \<Rightarrow> PropertyWidget \<Rightarrow> fvalue \<Rightarrow> bool" where
  "holds X w v \<longleftrightarrow> isEnabled w \<and> parentGroup w = None
     \<and> (\<forall>n h. UpdateMsg_scalar X w n False h v = Inr (Field n False True v))"

definition created :: "bool \<Rightarrow> slot \<Rightarrow> bool" where
  "created update s = (case s of NullField \<Rightarrow> False | Field n rep h v \<Rightarrow> gets_widget v \<and> (\<not> update \<or> h))"

definition tracked :: "ext \<Rightarrow> bool \<Rightarrow> MessageWidget \<Rightarrow> string \<Rightarrow> slot \<Rightarrow> bool" where
  "tracked X update st name s \<longleftrightarrow>
     (if created update s
      then \<exists>a w. find_widget st (scoped name (fname s)) = Some a \<and> deref st a = Inr w \<and> holds X w (fval s)
      else find_widget st (scoped name (fname s)) = None)"

text \<open>Sample messages for the closed instances below.\<close>

definition wide_msg :: message where
  "wide_msg = Message True True [Field ''id'' False True (VInt64 5000000000)]"

definition scalars_msg :: message where
  "scalars_msg = Message True True
     [Field ''mass'' False True (VDouble (Finite (5 / 2))),
      Field ''ratio'' False True (VFloat (Finite (1 / 4))),
      Field ''count'' False False (VInt64 (- 7)),
      Field ''name'' False True (VString [CHR ''c'', CHR ''a'', CHR ''f'', CHR 0xC3, CHR 0xA9]),
      Field ''innerxml'' False True (VString [CHR ''<'', CHR ''a'', CHR ''/'', CHR ''>'', CHR 0x0A]),
      Field ''type'' False True (VEnum [''BOX'', ''SPHERE''] 1),
      Field ''static'' False False (VBool True),
      Field ''raw'' False False (VOther TYPE_BYTES [1, 2])]"

section \<open>Basic facts\<close>

lemma bindE_simps [simp]:
  "bindE (Inl e) f = Inl e"
  "bindE (Inr x) f = f x"
  by (simp_all add: bindE_def)

lemma bindE_eq_Inr: "bindE m f = Inr y \<longleftrightarrow> (\<exists>x. m = Inr x \<and> f x = Inr y)"
  by (cases m) simp_all

lemma cons_field_eq_Inr:
  "cons_field s rest = Inr xs \<longleftrightarrow> (\<exists>s' rest'. s = Inr s' \<and> rest = Inr rest' \<and> xs = s' # rest')"
  by (cases s; cases rest) (auto simp: cons_field_def)

section \<open>Properties of AddPropertyWidget\<close>

lemma find_widget_append:
  "find_widget st name = None \<Longrightarrow>
   map_of (configWidgets st @ [(name, c)]) = (map_of (configWidgets st))(name \<mapsto> c)"
  by (rule ext) (auto simp: find_widget_def map_add_def split: option.splits)

lemma find_widget_fresh_key:
  "find_widget st name = None \<Longrightarrow> name \<notin> fst ` set (configWidgets st)"
  by (simp add: find_widget_def map_of_eq_None_iff)

text \<open>
  C3. Scoped names are unique. Adding under a name that is already present returns false
  and changes neither the registry nor any widget; adding a live child under a fresh,
  non-empty name returns true, appends exactly the entry \<open>(name, child)\<close> (so the map
  gains that one binding and nothing else moves), only writes the child's \<open>scopedName\<close>,
  and keeps the keys of the registry distinct.
\<close>

theorem AddPropertyWidget_unique:
  "(find_widget st name = Some w \<longrightarrow> AddPropertyWidget st name child = (False, st))
   \<and> (name \<noteq> [] \<and> find_widget st name = None \<longrightarrow>
        fst (AddPropertyWidget st name (Some c)) = True
        \<and> configWidgets (snd (AddPropertyWidget st name (Some c))) = configWidgets st @ [(name, c)]
        \<and> map_of (configWidgets (snd (AddPropertyWidget st name (Some c))))
            = (map_of (configWidgets st))(name \<mapsto> c)
        \<and> objects (snd (AddPropertyWidget st name (Some c)))
            = (objects st)[c := (objects st ! c)\<lparr> scopedName := name \<rparr>]
        \<and> (distinct (map fst (configWidgets st)) \<longrightarrow>
             distinct (map fst (configWidgets (snd (AddPropertyWidget st name (Some c)))))))"
proof (intro conjI impI)
  assume "find_widget st name = Some w"
  then show "AddPropertyWidget st name child = (False, st)"
    by (simp add: AddPropertyWidget_def split: option.splits)
next
  assume fresh: "name \<noteq> [] \<and> find_widget st name = None"
  then show "fst (AddPropertyWidget st name (Some c)) = True"
    by (simp add: AddPropertyWidget_def)
  from fresh show
    "configWidgets (snd (AddPropertyWidget st name (Some c))) = configWidgets st @ [(name, c)]"
    by (simp add: AddPropertyWidget_def)
  from fresh show
    "map_of (configWidgets (snd (AddPropertyWidget st name (Some c))))
       = (map_of (configWidgets st))(name \<mapsto> c)"
    by (simp add: AddPropertyWidget_def find_widget_append del: map_of_append)
  from fresh show
    "objects (snd (AddPropertyWidget st name (Some c)))
       = (objects st)[c := (objects st ! c)\<lparr> scopedName := name \<rparr>]"
    by (simp add: AddPropertyWidget_def)
  assume "distinct (map fst (configWidgets st))"
  with fresh show "distinct (map fst (configWidgets (snd (AddPropertyWidget st name (Some c)))))"
    by (simp add: AddPropertyWidget_def find_widget_fresh_key)
qed

theorem AddPropertyWidget_unique_witness:
  "AddPropertyWidget
      \<lparr> configWidgets = [(''pose'', 0)],
        objects = [\<lparr> wclass = Pose3dWidget, widgets = [], wvalue = QInvalid, density = Finite 0,
                    scopedName = ''pose'', isEnabled = True, parentGroup = None \<rparr>,
                   \<lparr> wclass = BoolWidget, widgets = [], wvalue = QBool True, density = Finite 0,
                    scopedName = [], isEnabled = True, parentGroup = None \<rparr>] \<rparr>
      ''pose'' (Some 1)
    = (False,
       \<lparr> configWidgets = [(''pose'', 0)],
        objects = [\<lparr> wclass = Pose3dWidget, widgets = [], wvalue = QInvalid, density = Finite 0,
                    scopedName = ''pose'', isEnabled = True, parentGroup = None \<rparr>,
                   \<lparr> wclass = BoolWidget, widgets = [], wvalue = QBool True, density = Finite 0,
                    scopedName = [], isEnabled = True, parentGroup = None \<rparr>] \<rparr>)
   \<and> configWidgets (snd (AddPropertyWidget
        \<lparr> configWidgets = [(''pose'', 0)],
          objects = [\<lparr> wclass = Pose3dWidget, widgets = [], wvalue = QInvalid, density = Finite 0,
                      scopedName = ''pose'', isEnabled = True, parentGroup = None \<rparr>,
                     \<lparr> wclass = BoolWidget, widgets = [], wvalue = QBool True, density = Finite 0,
                      scopedName = [], isEnabled = True, parentGroup = None \<rparr>] \<rparr>
        ''static'' (Some 1)))
      = [(''pose'', 0), (''static'', 1)]"
proof -
  let ?st = "\<lparr> configWidgets = [(''pose'', 0)],
        objects = [\<lparr> wclass = Pose3dWidget, widgets = [], wvalue = QInvalid, density = Finite 0,
                    scopedName = ''pose'', isEnabled = True, parentGroup = None \<rparr>,
                   \<lparr> wclass = BoolWidget, widgets = [], wvalue = QBool True, density = Finite 0,
                    scopedName = [], isEnabled = True, parentGroup = None \<rparr>] \<rparr>"
  have present: "find_widget ?st ''pose'' = Some 0"
    by (simp add: find_widget_def)
  have fresh: "''static'' \<noteq> [] \<and> find_widget ?st ''static'' = None"
    by (simp add: find_widget_def)
  from AddPropertyWidget_unique [of ?st "''pose''" 0 "Some 1" 1] present
  have a: "AddPropertyWidget ?st ''pose'' (Some 1) = (False, ?st)"
    by blast
  from AddPropertyWidget_unique [of ?st "''static''" 0 "Some 1" 1] fresh
  have b: "configWidgets (snd (AddPropertyWidget ?st ''static'' (Some 1)))
             = configWidgets ?st @ [(''static'', 1)]"
    by blast
  from a b show ?thesis by simp
qed

text \<open>
  C10. With an empty name or a null child, AddPropertyWidget returns false and leaves the
  registry (and every widget) as it was.
\<close>

theorem AddPropertyWidget_invalid:
  "AddPropertyWidget st [] child = (False, st) \<and> AddPropertyWidget st name None = (False, st)"
  by (simp add: AddPropertyWidget_def split: option.splits)

section \<open>Properties of the event types\<close>

text \<open>
  C8. Every event class has a type tag \<open>QEvent::MaxUser - k\<close> with \<open>k\<close> between 0 and 11,
  the list of event classes is complete, and the tags are pairwise distinct.
\<close>

theorem kType_reserved_distinct:
  "(\<forall>e. \<exists>k. 0 \<le> k \<and> k \<le> 11 \<and> kType e = MaxUser - k)
   \<and> set all_events = UNIV
   \<and> distinct (map kType all_events)
   \<and> inj kType"
proof (intro conjI allI)
  fix e
  show "\<exists>k. 0 \<le> k \<and> k \<le> 11 \<and> kType e = MaxUser - k"
    by (cases e) auto
  show all: "set all_events = UNIV"
  proof -
    have "e' \<in> set all_events" for e'
      by (cases e') (simp_all add: all_events_def)
    then show ?thesis by blast
  qed
  show "distinct (map kType all_events)"
    by (simp add: all_events_def)
  show "inj kType"
  proof (rule injI)
    fix a b
    assume "kType a = kType b"
    then show "a = b"
      by (cases a; cases b) simp_all
  qed
qed

section \<open>Parse in update mode, and null pointers\<close>

lemma Parse_fields_nothing_set:
  "list_all unset_or_repeated fs \<Longrightarrow>
   \<exists>new. Parse_fields X st r True name level fs = Inr (st, fs, new) \<and> group_box new = None"
proof (induction fs)
  case Nil
  then show ?case by (simp add: group_box_def)
next
  case (Cons s fs)
  then show ?case
    by (cases s) (auto simp: unset_or_repeated_def skip_field_def group_box_def)
qed

text \<open>
  C2. When no field of the message is set, \<open>Parse\<close> in update mode returns a null pointer
  and leaves the whole state as it was: no widget is created, the map of scoped names is
  unchanged, and no existing widget changes (neither does the message).
\<close>

theorem Parse_update_nothing_set:
  "no_field_set m \<Longrightarrow> Parse X st m True name level = Inr (st, m, None)"
proof (cases m)
  case (Message d r fs)
  assume "no_field_set m"
  with Message have "list_all unset_or_repeated fs" by (simp add: no_field_set_def)
  from Parse_fields_nothing_set [OF this, of X st r name level] Message
  show ?thesis by auto
qed

theorem Parse_update_nothing_set_witness:
  "Parse sample_ext sample_state
     (Message True True
        [Field ''mass'' False False (VDouble (Finite 2)), Field ''name'' False False (VString ''ball'')])
     True [] 0
   = Inr (sample_state,
          Message True True
            [Field ''mass'' False False (VDouble (Finite 2)), Field ''name'' False False (VString ''ball'')],
          None)"
proof -
  have "no_field_set (Message True True
        [Field ''mass'' False False (VDouble (Finite 2)), Field ''name'' False False (VString ''ball'')])"
    by (simp add: no_field_set_def unset_or_repeated_def)
  from Parse_update_nothing_set [OF this] show ?thesis .
qed

lemma Parse_fields_null_reflection:
  "\<exists>new. Parse_fields X st False update name level fs = Inr (st, fs, new) \<and> group_box new = None"
proof (cases fs)
  case Nil
  then show ?thesis by (simp add: group_box_def)
next
  case (Cons s rest)
  then show ?thesis by (cases s) (simp_all add: group_box_def)
qed

lemma UpdateMsg_fields_null_reflection:
  "UpdateMsg_fields X st False name fs = Inr fs"
proof (cases fs)
  case Nil
  then show ?thesis by simp
next
  case (Cons s rest)
  then show ?thesis by (cases s) simp_all
qed

lemma skip_field_eq_Inr:
  "skip_field s res = Inr (st1, fs', new) \<longleftrightarrow> (\<exists>rest'. res = Inr (st1, rest', new) \<and> fs' = s # rest')"
  by (cases res) (auto simp: skip_field_def)

lemma push_field_eq_Inr:
  "push_field s pushed res = Inr (st1, fs', Some ws) \<longleftrightarrow>
     (\<exists>rest' ws'. res = Inr (st1, rest', Some ws') \<and> fs' = s # rest' \<and> ws = pushed @ ws')"
  by (cases res) (auto simp: push_field_def)

text \<open>The loop body of Parse does not look at the fields that follow.\<close>

lemma Parse_fields_step_shape:
  "\<exists>(B :: error + (MessageWidget \<times> slot \<times> nat option)) P N. \<forall>rest.
     Parse_fields X st r update name level (Field n rep h v # rest)
       = (if \<not> r then Inr (st, Field n rep h v # rest, None)
          else if rep then skip_field (Field n rep h v) (Parse_fields X st r update name level rest)
          else if update \<and> \<not> h then skip_field (Field n rep h v) (Parse_fields X st r update name level rest)
          else bindE B (\<lambda>res. push_field (fst (snd res)) (P res)
                                (Parse_fields X (N res) r update name level rest)))"
  by (intro exI allI) (rule Parse_fields.simps)

lemma Parse_fields_null_later:
  "Parse_fields X st r update name level fs1 = Inr (st1, fs1', Some ws) \<Longrightarrow>
   Parse_fields X st r update name level (fs1 @ NullField # fs2) = Inr (st1, fs1' @ NullField # fs2, None)"
proof (induction fs1 arbitrary: st st1 fs1' ws)
  case Nil
  then show ?case by simp
next
  case (Cons s fs1)
  show ?case
  proof (cases s)
    case NullField
    with Cons.prems show ?thesis by simp
  next
    case (Field n rep h v)
    from Parse_fields_step_shape [of X st r update name level n rep h v]
    obtain B :: "error + (MessageWidget \<times> slot \<times> nat option)" and P N where shape: "\<And>rest.
     Parse_fields X st r update name level (Field n rep h v # rest)
       = (if \<not> r then Inr (st, Field n rep h v # rest, None)
          else if rep then skip_field (Field n rep h v) (Parse_fields X st r update name level rest)
          else if update \<and> \<not> h then skip_field (Field n rep h v) (Parse_fields X st r update name level rest)
          else bindE B (\<lambda>res. push_field (fst (snd res)) (P res)
                                (Parse_fields X (N res) r update name level rest)))"
      by blast
    have r: r using Cons.prems Field by (cases r) simp_all
    show ?thesis
    proof (cases "rep \<or> (update \<and> \<not> h)")
      case True
      with Cons.prems r obtain rest' where
        "Parse_fields X st r update name level fs1 = Inr (st1, rest', Some ws)" "fs1' = s # rest'"
        unfolding Field shape by (auto simp: skip_field_eq_Inr split: if_splits)
      with Cons.IH [of st st1 rest' ws] True r show ?thesis
        unfolding Field append_Cons shape by (auto simp: skip_field_def)
    next
      case False
      with Cons.prems r obtain res rest' ws' where
        b: "B = Inr res" and
        run: "Parse_fields X (N res) r update name level fs1 = Inr (st1, rest', Some ws')" and
        fs1': "fs1' = fst (snd res) # rest'"
        unfolding Field shape by (auto simp: bindE_eq_Inr push_field_eq_Inr)
      from Cons.IH [OF run]
      have "Parse_fields X (N res) r update name level (fs1 @ NullField # fs2)
                       = Inr (st1, rest' @ NullField # fs2, None)" .
      with b fs1' False r show ?thesis
        unfolding Field append_Cons shape by (auto simp: push_field_def)
    qed
  qed
qed

text \<open>Likewise for UpdateMsg: the fields from the null one on stay as they were.\<close>

lemma UpdateMsg_fields_step_shape:
  "\<exists>B. \<forall>rest.
     UpdateMsg_fields X st r name (Field n rep h v # rest)
       = (if \<not> r then Inr (Field n rep h v # rest)
          else cons_field B (UpdateMsg_fields X st r name rest))"
  by (intro exI allI) (rule UpdateMsg_fields.simps)

lemma UpdateMsg_fields_null_later:
  "UpdateMsg_fields X st True name fs1 = Inr fs1' \<Longrightarrow>
   UpdateMsg_fields X st True name (fs1 @ NullField # fs2) = Inr (fs1' @ NullField # fs2)"
proof (induction fs1 arbitrary: fs1')
  case Nil
  then show ?case by simp
next
  case (Cons s fs1)
  show ?case
  proof (cases s)
    case NullField
    with Cons.prems show ?thesis by auto
  next
    case (Field n rep h v)
    from UpdateMsg_fields_step_shape [of X st True name n rep h v]
    obtain B where shape: "\<And>rest. UpdateMsg_fields X st True name (Field n rep h v # rest)
       = cons_field B (UpdateMsg_fields X st True name rest)"
      by auto
    from Cons.prems obtain s' rest' where "B = Inr s'"
      "UpdateMsg_fields X st True name fs1 = Inr rest'" "fs1' = s' # rest'"
      unfolding Field shape by (auto simp: cons_field_eq_Inr)
    with Cons.IH [of rest'] show ?thesis
      unfolding Field append_Cons shape by (simp add: cons_field_def)
  qed
qed

text \<open>
  C7. A null message descriptor, a null reflection, or a null descriptor of the first field
  ends the walk at once: \<open>Parse\<close> returns a null pointer with the state and the message
  untouched, and \<open>UpdateMsg\<close> returns the message as it was (it never writes the map of
  scoped names). A null field descriptor further on ends the walk there: \<open>Parse\<close> still
  returns a null pointer and \<open>UpdateMsg\<close> returns, the fields from the null one on are
  not visited, and what the walk did for the fields before it stays.
\<close>

theorem null_pointer_short_circuit:
  "Parse X st (Message False r fs) update name level = Inr (st, Message False r fs, None)
   \<and> Parse X st (Message True False fs) update name level = Inr (st, Message True False fs, None)
   \<and> Parse X st (Message True r (NullField # fs)) update name level
        = Inr (st, Message True r (NullField # fs), None)
   \<and> UpdateMsg X st (Message False r fs) name = Inr (Message False r fs)
   \<and> UpdateMsg X st (Message True False fs) name = Inr (Message True False fs)
   \<and> UpdateMsg X st (Message True r (NullField # fs)) name = Inr (Message True r (NullField # fs))
   \<and> (Parse_fields X st r update name level fs1 = Inr (st1, fs1', Some ws) \<longrightarrow>
        Parse X st (Message True r (fs1 @ NullField # fs2)) update name level
          = Inr (st1, Message True r (fs1' @ NullField # fs2), None))
   \<and> (UpdateMsg_fields X st True name fs1 = Inr fs1' \<longrightarrow>
        UpdateMsg X st (Message True True (fs1 @ NullField # fs2)) name
          = Inr (Message True True (fs1' @ NullField # fs2)))"
proof (intro conjI impI)
  show "Parse X st (Message True False fs) update name level = Inr (st, Message True False fs, None)"
    using Parse_fields_null_reflection [of X st update name level fs] by auto
  assume "Parse_fields X st r update name level fs1 = Inr (st1, fs1', Some ws)"
  from Parse_fields_null_later [OF this, of fs2]
  show "Parse X st (Message True r (fs1 @ NullField # fs2)) update name level
          = Inr (st1, Message True r (fs1' @ NullField # fs2), None)"
    by (simp add: group_box_def)
next
  assume "UpdateMsg_fields X st True name fs1 = Inr fs1'"
  from UpdateMsg_fields_null_later [OF this, of fs2]
  show "UpdateMsg X st (Message True True (fs1 @ NullField # fs2)) name
          = Inr (Message True True (fs1' @ NullField # fs2))"
    by simp
qed (simp_all add: group_box_def UpdateMsg_fields_null_reflection)

theorem null_pointer_short_circuit_witness:
  "Parse sample_ext MessageWidget_init
     (Message True True ([Field ''count'' False True (VInt32 3)] @ NullField # [Field ''on'' False True (VBool True)]))
     False [] 0
   = Inr (\<lparr> configWidgets = [(''count'', 0)],
            objects = [(new_NumberWidget ''count'' 0 NumberWidget_INT)
                         \<lparr> wvalue := QInt 3, scopedName := ''count'' \<rparr>] \<rparr>,
          Message True True ([Field ''count'' False True (VInt32 3)] @ NullField # [Field ''on'' False True (VBool True)]),
          None)
   \<and> UpdateMsg sample_ext sample_state
        (Message True True ([Field ''name'' False False (VString ''ball'')] @ NullField
                              # [Field ''mass'' False True (VDouble (Finite 2))])) []
     = Inr (Message True True ([Field ''name'' False True (VString ''box'')] @ NullField
                              # [Field ''mass'' False True (VDouble (Finite 2))]))"
proof -
  let ?st1 = "\<lparr> configWidgets = [(''count'', 0)],
            objects = [(new_NumberWidget ''count'' 0 NumberWidget_INT)
                         \<lparr> wvalue := QInt 3, scopedName := ''count'' \<rparr>] \<rparr>"
  have a: "Parse_fields sample_ext MessageWidget_init True False [] 0 [Field ''count'' False True (VInt32 3)]
             = Inr (?st1, [Field ''count'' False True (VInt32 3)], Some [0])"
    by (simp add: MessageWidget_init_def find_widget_def scoped_def Parse_scalar_def set_in_def
          new_or_found_def new_object_def call_SetValue_def deref_def store_def SetValue_def
          new_NumberWidget_def blank_widget_def register_new_def AddPropertyWidget_def
          push_field_def)
  have b: "UpdateMsg_fields sample_ext sample_state True [] [Field ''name'' False False (VString ''ball'')]
             = Inr [Field ''name'' False True (VString ''box'')]"
    by (simp add: sample_state_def cons_field_def find_widget_def scoped_def WidgetReadOnly_def
          deref_def new_NumberWidget_def new_StringWidget_def blank_widget_def UpdateMsg_scalar_def
          toStdString_def)
  from null_pointer_short_circuit
         [of sample_ext MessageWidget_init True "[]" False "[]" 0
             "[Field ''count'' False True (VInt32 3)]" ?st1 "[Field ''count'' False True (VInt32 3)]"
             "[0]" "[Field ''on'' False True (VBool True)]"] a
  have c: "Parse sample_ext MessageWidget_init
     (Message True True ([Field ''count'' False True (VInt32 3)] @ NullField # [Field ''on'' False True (VBool True)]))
     False [] 0
   = Inr (?st1,
          Message True True ([Field ''count'' False True (VInt32 3)] @ NullField # [Field ''on'' False True (VBool True)]),
          None)"
    by blast
  from null_pointer_short_circuit
         [of sample_ext sample_state True "[]" False "[]" 0
             "[Field ''name'' False False (VString ''ball'')]" _ "[Field ''name'' False True (VString ''box'')]"
             _ "[Field ''mass'' False True (VDouble (Finite 2))]"] b
  have d: "UpdateMsg sample_ext sample_state
        (Message True True ([Field ''name'' False False (VString ''ball'')] @ NullField
                              # [Field ''mass'' False True (VDouble (Finite 2))])) []
     = Inr (Message True True ([Field ''name'' False True (VString ''box'')] @ NullField
                              # [Field ''mass'' False True (VDouble (Finite 2))]))"
    by blast
  from c d show ?thesis by blast
qed

section \<open>Pose and vector fields are read by position\<close>

lemma ParseVector3d_positions:
  "ParseVector3d (Message True True
      (f0 # Field n1 False h1 (VDouble x) # Field n2 False h2 (VDouble y)
          # Field n3 False h3 (VDouble z) # others))
   = Inr (Vector3d x y z)"
  by (simp add: ParseVector3d_def field_at_def GetDouble_def)

lemma Parse_Quaternion_positions:
  "Parse_Quaternion (Message True True
      (f0 # Field n1 False h1 (VDouble x) # Field n2 False h2 (VDouble y)
          # Field n3 False h3 (VDouble z) # Field n4 False h4 (VDouble w) # others))
   = Inr (Quaterniond w x y z)"
  by (simp add: Parse_Quaternion_def field_at_def GetDouble_def)

text \<open>
  C6. \<open>ParseVector3d\<close> reads the fields at positions 1, 2, 3 as x, y, z; the quaternion
  block of \<open>Parse\<close> reads the fields at positions 1, 2, 3, 4 as x, y, z, w and builds the
  quaternion (w, x, y, z); the field at position 0 is never read. The names of the fields
  are arbitrary here, so only the positions decide. \<open>Parse\<close> of a message with a Pose
  field hands exactly that pose to the pose widget.
\<close>

theorem Parse_Pose_by_position:
  "ParseVector3d (Message True True
      (f0 # Field n1 False h1 (VDouble x) # Field n2 False h2 (VDouble y)
          # Field n3 False h3 (VDouble z) # others))
     = Inr (Vector3d x y z)
   \<and> Parse_Quaternion (Message True True
      (g0 # Field m1 False k1 (VDouble a) # Field m2 False k2 (VDouble b)
          # Field m3 False k3 (VDouble c) # Field m4 False k4 (VDouble w) # others'))
     = Inr (Quaterniond w a b c)
   \<and> (\<exists>st' msg' ws.
        Parse X MessageWidget_init
          (Message True True
            [Field n False h (VMessage ''Pose'' (Message True True
               [Field hn hrep hh (VMessage ''Header'' hm),
                Field pn False ph (VMessage ''Vector3d'' (Message True True
                  (f0 # Field n1 False h1 (VDouble x) # Field n2 False h2 (VDouble y)
                      # Field n3 False h3 (VDouble z) # others))),
                Field on False oh (VMessage ''Quaternion'' (Message True True
                  (g0 # Field m1 False k1 (VDouble a) # Field m2 False k2 (VDouble b)
                      # Field m3 False k3 (VDouble c) # Field m4 False k4 (VDouble w) # others')))]))])
          False [] 0
          = Inr (st', msg', ws)
        \<and> map Value (objects st') = [QPose3d (Pose3d (Vector3d x y z) (Quaterniond w a b c))])"
proof (intro conjI)
  show "ParseVector3d (Message True True
      (f0 # Field n1 False h1 (VDouble x) # Field n2 False h2 (VDouble y)
          # Field n3 False h3 (VDouble z) # others))
     = Inr (Vector3d x y z)"
    by (rule ParseVector3d_positions)
  show "Parse_Quaternion (Message True True
      (g0 # Field m1 False k1 (VDouble a) # Field m2 False k2 (VDouble b)
          # Field m3 False k3 (VDouble c) # Field m4 False k4 (VDouble w) # others'))
     = Inr (Quaterniond w a b c)"
    by (rule Parse_Quaternion_positions)
  show "\<exists>st' msg' ws.
        Parse X MessageWidget_init
          (Message True True
            [Field n False h (VMessage ''Pose'' (Message True True
               [Field hn hrep hh (VMessage ''Header'' hm),
                Field pn False ph (VMessage ''Vector3d'' (Message True True
                  (f0 # Field n1 False h1 (VDouble x) # Field n2 False h2 (VDouble y)
                      # Field n3 False h3 (VDouble z) # others))),
                Field on False oh (VMessage ''Quaternion'' (Message True True
                  (g0 # Field m1 False k1 (VDouble a) # Field m2 False k2 (VDouble b)
                      # Field m3 False k3 (VDouble c) # Field m4 False k4 (VDouble w) # others')))]))])
          False [] 0
          = Inr (st', msg', ws)
        \<and> map Value (objects st') = [QPose3d (Pose3d (Vector3d x y z) (Quaterniond w a b c))]"
    by (simp add: ParseVector3d_positions Parse_Quaternion_positions is_special_def
          Parse_special_def Parse_Pose_def Pose3d_Zero_def new_or_found_def new_object_def
          MessageWidget_init_def find_widget_def scoped_def call_SetValue_def deref_def store_def
          SetValue_def new_Pose3dWidget_def blank_widget_def make_group_def register_new_def
          AddPropertyWidget_def push_field_def group_box_def Value_def set_spins_def
          split: option.splits)
qed

section \<open>UpdateMsg and read-only widgets\<close>

lemma UpdateMsg_fields_length:
  "UpdateMsg_fields X st r name fs = Inr fs' \<Longrightarrow> length fs' = length fs"
proof (induction fs arbitrary: fs')
  case Nil
  then show ?case by simp
next
  case (Cons s fs)
  show ?case
  proof (cases s)
    case NullField
    with Cons.prems show ?thesis by simp
  next
    case (Field n rep h v)
    show ?thesis
    proof (cases r)
      case False
      with Cons.prems Field show ?thesis by simp
    next
      case True
      with Cons.prems Field obtain s' rest' where
        "UpdateMsg_fields X st r name fs = Inr rest'" "fs' = s' # rest'"
        by (auto simp: cons_field_eq_Inr)
      with Cons.IH show ?thesis by simp
    qed
  qed
qed



lemma UpdateMsg_length:
  "UpdateMsg X st m name = Inr m' \<Longrightarrow> length (slots m') = length (slots m)"
  by (cases m) (auto simp: bindE_eq_Inr dest: UpdateMsg_fields_length split: if_splits)

lemma FindValueByName_distinct:
  "distinct xs \<Longrightarrow> k < length xs \<Longrightarrow> FindValueByName xs (xs ! k) = Some k"
proof (induction xs arbitrary: k)
  case Nil
  then show ?case by simp
next
  case (Cons x xs)
  then show ?case by (cases k) auto
qed












section \<open>Enum widgets\<close>

lemma findText_nonneg_iff: "0 \<le> findText items t \<longleftrightarrow> t \<in> set items"
  by (induction items) auto

lemma findText_finds:
  "t \<in> set items \<Longrightarrow>
   nat (findText items t) < length items \<and> items ! nat (findText items t) = t"
proof (induction items)
  case Nil
  then show ?case by simp
next
  case (Cons x xs)
  show ?case
  proof (cases "x = t")
    case True
    then show ?thesis by simp
  next
    case False
    with Cons.prems have "t \<in> set xs" by simp
    with Cons.IH findText_nonneg_iff [of xs t] False show ?thesis
      by (simp add: nat_add_distrib)
  qed
qed

lemma c_str_no_NUL: "CHR 0x00 \<notin> set s \<Longrightarrow> c_str s = s"
  by (auto simp: c_str_def takeWhile_eq_all_conv)

lemma store_same: "deref st a = Inr w \<Longrightarrow> store st a w = st"
  by (auto simp: deref_def store_def split: if_splits)

lemma deref_store: "deref st a = Inr w \<Longrightarrow> deref (store st a w') a = Inr w'"
  by (auto simp: deref_def store_def split: if_splits)

lemma find_widget_store [simp]: "find_widget (store st a w) name = find_widget st name"
  by (simp add: find_widget_def store_def)

lemma store_store [simp]: "store (store st a w) a w' = store st a w'"
  by (simp add: store_def)

lemma AddItem_then_SetEnum:
  assumes reg: "find_widget st name = Some a" and live: "deref st a = Inr w"
    and enum: "enum_widget w items idx" and nonul: "CHR 0x00 \<notin> set itemText"
  shows "\<exists>st1 st2. AddItemEnumWidget st name itemText = Inr (True, st1)
           \<and> SetEnumWidgetValue st1 name itemText = Inr (True, st2)
           \<and> EnumWidgetValue st2 name = Inr (toStdString (fromStdString itemText))"
proof -
  let ?t = "fromStdString itemText"
  let ?items = "items @ [?t]"
  let ?idx = "if items = [] then 0 else idx"
  let ?w1 = "w\<lparr> widgets := [QComboBox ?items ?idx] \<rparr>"
  let ?st1 = "store st a ?w1"
  have add: "AddItemEnumWidget st name itemText = Inr (True, ?st1)"
    using reg live enum
    by (simp add: AddItemEnumWidget_def enum_widget_def addItem_def)
  have live1: "deref ?st1 a = Inr ?w1"
    using live by (rule deref_store)
  have mem: "?t \<in> set ?items" by simp
  let ?k = "findText ?items ?t"
  from mem have k0: "0 \<le> ?k" by (simp only: findText_nonneg_iff)
  from findText_finds [OF mem] have k1: "nat ?k < length ?items" and k2: "?items ! nat ?k = ?t"
    by blast+
  let ?w2 = "?w1\<lparr> widgets := [QComboBox ?items ?k] \<rparr>"
  have same: "tr (c_str itemText) = ?t"
    using nonul by (simp add: tr_def fromStdString_def c_str_no_NUL)
  have upd: "UpdateEnumWidget ?w1 itemText = (True, ?w2)"
    using k0 by (simp add: UpdateEnumWidget_def same Let_def)
  let ?st2 = "store ?st1 a ?w2"
  have set: "SetEnumWidgetValue ?st1 name itemText = Inr (True, ?st2)"
    using reg live1 upd by (simp add: SetEnumWidgetValue_def)
  have live2: "deref ?st2 a = Inr ?w2"
    using live1 by (rule deref_store)
  have "EnumWidgetValue ?st2 name = Inr (toStdString ?t)"
    using reg live2 k0 k1 k2
    by (simp add: EnumWidgetValue_def EnumWidgetValue_of_def currentText_def)
  with add set show ?thesis by blast
qed

lemma SetEnum_unknown:
  assumes reg: "find_widget st name = Some a" and live: "deref st a = Inr w"
    and enum: "enum_widget w items idx" and nonul: "CHR 0x00 \<notin> set v"
    and unknown: "fromStdString v \<notin> set items"
  shows "SetEnumWidgetValue st name v = Inr (False, st)"
proof -
  from unknown have "\<not> 0 \<le> findText items (fromStdString v)"
    by (simp only: findText_nonneg_iff not_False_eq_True)
  then have "UpdateEnumWidget w v = (False, w)"
    using enum nonul
    by (simp add: UpdateEnumWidget_def enum_widget_def tr_def fromStdString_def c_str_no_NUL Let_def)
  with reg live show ?thesis
    by (simp add: SetEnumWidgetValue_def store_same)
qed

text \<open>
  C4. For an item text without a NUL byte the claim holds (lemmas \<open>AddItem_then_SetEnum\<close>
  and \<open>SetEnum_unknown\<close>, where the text counts as Qt decodes it). For the three-byte item
  text a, NUL, b,
  \<open>AddItemEnumWidget\<close> adds the item and returns true, and \<open>SetEnumWidgetValue\<close> with
  the same text returns false and selects nothing: \<open>UpdateEnumWidget\<close> looks for the C
  string of the text, which is the one byte a.
\<close>

theorem SetEnumWidgetValue_NUL_text:
  "\<exists>st1. AddItemEnumWidget enum_state ''type'' nul_text = Inr (True, st1)
        \<and> SetEnumWidgetValue st1 ''type'' nul_text = Inr (False, st1)"
  by (simp add: AddItemEnumWidget_def enum_state_def nul_text_def find_widget_def deref_def
        store_def CreateEnumWidget_def blank_widget_def addItem_def tr_def c_str_def
        fromStdString_def fromUtf8_def utf8_len_def SetEnumWidgetValue_def UpdateEnumWidget_def
        Let_def)

section \<open>Parse followed by UpdateMsg on scalar fields\<close>

lemma UpdateMsg_scalar_scopedName [simp]:
  "UpdateMsg_scalar X (w\<lparr> scopedName := k \<rparr>) n rep h v = UpdateMsg_scalar X w n rep h v"
  by (cases v) (simp_all add: UpdateMsg_scalar_def Value_def)

lemma holds_scopedName [simp]: "holds X (w\<lparr> scopedName := k \<rparr>) v = holds X w v"
  by (simp add: holds_def)

lemma foldl_addItem:
  "foldl (\<lambda>c v. addItem c (f v)) (QComboBox items idx) vs
     = QComboBox (items @ map f vs) (if items = [] \<and> vs \<noteq> [] then 0 else idx)"
  by (induction vs arbitrary: items idx) (simp_all add: addItem_def)

lemma decode_utf8_well_formed: "well_formed_from k s \<Longrightarrow> decode_utf8 k s = s"
  by (induction k s rule: decode_utf8.induct) simp_all

lemma utf8_text_fromStdString: "utf8_text s \<Longrightarrow> fromStdString s = s"
  by (simp add: utf8_text_def fromStdString_def fromUtf8_def decode_utf8_well_formed)

lemma plain_text_free: "free_of plain_breaks s \<Longrightarrow> plain_text 0 s = s"
proof (induction s)
  case Nil
  then show ?case by simp
next
  case (Cons c cs)
  then have IH: "plain_text 0 cs = cs" by simp
  from Cons.prems have h: "c \<noteq> CHR 0x0D"
    "take 2 cs \<noteq> [CHR 0x80, CHR 0xA8] \<or> c \<noteq> CHR 0xE2"
    "take 2 cs \<noteq> [CHR 0x80, CHR 0xA9] \<or> c \<noteq> CHR 0xE2"
    "take 2 cs \<noteq> [CHR 0xB7, CHR 0x90] \<or> c \<noteq> CHR 0xEF"
    "take 2 cs \<noteq> [CHR 0xB7, CHR 0x91] \<or> c \<noteq> CHR 0xEF"
    "take 1 cs \<noteq> [CHR 0xA0] \<or> c \<noteq> CHR 0xC2"
    by (auto simp: plain_breaks_def numeral_2_eq_2 numeral_3_eq_3)
  show ?case
  proof (cases "c = CHR 0x0A")
    case True
    with IH show ?thesis by (simp add: line_break_def)
  next
    case False
    with h IH show ?thesis
      by (auto simp: line_break_def numeral_2_eq_2 numeral_3_eq_3)
  qed
qed

lemma map_tr_c_str:
  "list_all (\<lambda>s. CHR 0x00 \<notin> set s \<and> utf8_text s) names \<Longrightarrow> map (\<lambda>v. tr (c_str v)) names = names"
proof (induction names)
  case Nil
  then show ?case by simp
next
  case (Cons x xs)
  then have "tr (c_str x) = x"
    using utf8_text_fromStdString [of x] by (simp add: c_str_no_NUL tr_def fromStdString_def)
  with Cons show ?case by simp
qed

lemma left_all: "sum_list (map utf16_units s) \<le> n \<Longrightarrow> left n s = s"
  by (induction s arbitrary: n) auto

lemma setText_short: "utf16_length s \<le> 32767 \<Longrightarrow> setText s = s"
  by (simp add: setText_def utf16_length_def left_all)

lemma well_formed_ascii: "\<forall>c\<in>set s. (of_char c :: nat) < 0x80 \<Longrightarrow> well_formed_from 0 s"
  by (induction s) (simp_all add: utf8_len_def)

lemma utf8_text_ascii:
  assumes a: "\<forall>c\<in>set s. (of_char c :: nat) < 0x80"
  shows "utf8_text s"
proof -
  have "take 3 s \<noteq> [CHR 0xEF, CHR 0xBB, CHR 0xBF]"
  proof
    assume "take 3 s = [CHR 0xEF, CHR 0xBB, CHR 0xBF]"
    then have "CHR 0xEF \<in> set (take 3 s)" by simp
    then have "CHR 0xEF \<in> set s" by (rule in_set_takeD)
    with a show False by auto
  qed
  with a show ?thesis
    by (simp add: utf8_text_def well_formed_ascii)
qed

lemma findText_distinct:
  "distinct xs \<Longrightarrow> k < length xs \<Longrightarrow> findText xs (xs ! k) = int k"
proof (induction xs arbitrary: k)
  case Nil
  then show ?case by simp
next
  case (Cons x xs)
  then show ?case by (cases k) auto
qed

lemma free_of_plain_breaks_ascii:
  "\<forall>c\<in>set s. (of_char c :: nat) < 0x80 \<and> c \<noteq> CHR 0x0D \<Longrightarrow> free_of plain_breaks s"
proof (induction s)
  case Nil
  then show ?case by simp
next
  case (Cons c cs)
  then have c: "(of_char c :: nat) < 0x80" "c \<noteq> CHR 0x0D" and IH: "free_of plain_breaks cs"
    by simp_all
  from c have "c \<noteq> CHR 0xE2" "c \<noteq> CHR 0xEF" "c \<noteq> CHR 0xC2" by auto
  with c IH show ?case
    by (simp add: plain_breaks_def)
qed

lemma utf16_length_ascii:
  "\<forall>c\<in>set s. (of_char c :: nat) < 0x80 \<Longrightarrow> utf16_length s = length s"
  by (induction s) (simp_all add: utf16_length_def utf16_units_def cont_def)

text \<open>
  Among the strings that come back are all those of at most 32767 ASCII characters without
  a carriage return, whatever the name of the field.
\<close>

lemma comes_back_ascii:
  assumes "\<forall>c\<in>set s. (of_char c :: nat) < 0x80 \<and> c \<noteq> CHR 0x0D" and "length s \<le> 32767"
  shows "comes_back n (VString s)"
  using assms
  by (simp add: comes_back_def utf8_text_ascii free_of_plain_breaks_ascii utf16_length_ascii)

lemma Parse_scalar_new:
  assumes "comes_back n v" and "gets_widget v"
  shows "\<exists>w. Parse_scalar X st None n level v
              = Inr (st\<lparr> objects := objects st @ [w] \<rparr>, Some (length (objects st)))
            \<and> holds X w v"
proof (cases v)
  case (VEnum names k)
  with assms have d: "distinct names"
    and nn: "list_all (\<lambda>s. CHR 0x00 \<notin> set s \<and> utf8_text s) names"
    and k: "k < length names"
    by (simp_all add: comes_back_def gets_widget_def)
  from map_tr_c_str [OF nn] k have nk: "tr (c_str (names ! k)) = names ! k"
    by (metis nth_map)
  let ?w = "blank_widget\<lparr> wclass := EnumWidget, widgets := [QComboBox names (int k)] \<rparr>"
  have "Parse_scalar X st None n level v
              = Inr (st\<lparr> objects := objects st @ [?w] \<rparr>, Some (length (objects st)))"
    using VEnum d k
    by (simp add: Parse_scalar_def GetEnum_def new_or_found_def new_object_def CreateEnumWidget_def
          foldl_addItem map_tr_c_str [OF nn] deref_def store_def UpdateEnumWidget_def nk
          findText_distinct Let_def)
  moreover have "holds X ?w v"
    using VEnum d k
    by (simp add: holds_def blank_widget_def UpdateMsg_scalar_def currentText_def toStdString_def
          FindValueByName_distinct)
  ultimately show ?thesis by blast
next
  case (VString x)
  with assms have u: "fromStdString x = x"
    and c: "if n = ''innerxml'' then toPlainText x = x else setText x = x"
    by (simp_all add: comes_back_def utf8_text_fromStdString setText_short toPlainText_def
          plain_text_free)
  show ?thesis
  proof (cases "n = ''innerxml''")
    case True
    with VString u c show ?thesis
      by (auto simp: Parse_scalar_def set_in_def new_or_found_def new_object_def call_SetValue_def
            deref_def store_def SetValue_def new_StringWidget_def blank_widget_def holds_def
            UpdateMsg_scalar_def toStdString_def set_text_def)
  next
    case False
    with VString u c show ?thesis
      by (auto simp: Parse_scalar_def set_in_def new_or_found_def new_object_def call_SetValue_def
            deref_def store_def SetValue_def new_StringWidget_def blank_widget_def holds_def
            UpdateMsg_scalar_def toStdString_def set_text_def)
  qed
qed (use assms in \<open>auto simp: comes_back_def gets_widget_def Parse_scalar_def set_in_def
        new_or_found_def new_object_def call_SetValue_def deref_def store_def SetValue_def
        new_NumberWidget_def new_BoolWidget_def blank_widget_def holds_def
        UpdateMsg_scalar_def Value_def\<close>)

lemma Parse_scalar_none:
  assumes "scalar_value v" and "\<not> gets_widget v"
  shows "Parse_scalar X st found n level v = Inr (st, None)"
  using assms
  by (cases v) (simp_all add: scalar_value_def gets_widget_def Parse_scalar_def GetEnum_def)

lemma scoped_inject [simp]: "scoped name n = scoped name n' \<longleftrightarrow> n = n'"
  by (simp add: scoped_def)

lemma scoped_nonempty [simp]: "n \<noteq> [] \<Longrightarrow> scoped name n \<noteq> []"
  by (simp add: scoped_def)

lemma comes_back_scalar: "comes_back n v \<Longrightarrow> scalar_value v"
  by (cases v) (simp_all add: comes_back_def scalar_value_def)

lemma UpdateMsg_fields_tracked:
  "list_all scalar_field fs \<Longrightarrow> list_all (tracked X update st name) fs \<Longrightarrow>
   UpdateMsg_fields X st True name fs = Inr (map (mark_set update) fs)"
proof (induction fs)
  case Nil
  then show ?case by simp
next
  case (Cons s fs)
  from Cons.prems obtain n h v where s: "s = Field n False h v" and n: "n \<noteq> []" and cb: "comes_back n v"
    by (cases s) (auto simp: scalar_field_def)
  from Cons have rest: "UpdateMsg_fields X st True name fs = Inr (map (mark_set update) fs)"
    by simp
  from Cons.prems s have tr: "tracked X update st name (Field n False h v)" by simp
  have head: "(case find_widget st (scoped name n) of
                  None \<Rightarrow> Inr (Field n False h v)
                | Some a \<Rightarrow>
                    bindE (WidgetReadOnly st (scoped name n)) (\<lambda>readOnly.
                      if readOnly then Inr (Field n False h v)
                      else
                        bindE (deref st a) (\<lambda>childWidget.
                          case v of
                            VMessage t valueMsg \<Rightarrow>
                              bindE (if is_special t
                                     then UpdateMsg_special X childWidget t valueMsg
                                     else UpdateMsg X st valueMsg (scoped name n))
                                (\<lambda>m. Inr (Field n False True (VMessage t m)))
                          | _ \<Rightarrow> UpdateMsg_scalar X childWidget n False h v)))
             = Inr (mark_set update (Field n False h v))"
  proof (cases "created update (Field n False h v)")
    case True
    with tr obtain a w where a: "find_widget st (scoped name n) = Some a"
      and w: "deref st a = Inr w" and hw: "holds X w v"
      by (auto simp: tracked_def)
    from hw have ro: "WidgetReadOnly st (scoped name n) = Inr False"
      using a w by (simp add: WidgetReadOnly_def holds_def)
    from hw have sc: "UpdateMsg_scalar X w n False h v = Inr (Field n False True v)"
      by (simp add: holds_def)
    from True have mk: "mark_set update (Field n False h v) = Field n False True v"
      by (auto simp: created_def mark_set_def)
    from comes_back_scalar [OF cb] a w ro sc mk show ?thesis
      by (cases v) (simp_all add: scalar_value_def)
  next
    case False
    with tr have a: "find_widget st (scoped name n) = None"
      by (simp add: tracked_def)
    from False have mk: "mark_set update (Field n False h v) = Field n False h v"
      by (auto simp: created_def mark_set_def)
    from a mk show ?thesis by simp
  qed
  from s head rest show ?case
    by (simp add: cons_field_def)
qed

lemma Parse_fields_scalar_step:
  assumes "scalar_value v" and "\<not> (update \<and> \<not> h)"
  shows "Parse_fields X st True update name level (Field n False h v # rest)
         = bindE (Parse_scalar X st (find_widget st (scoped name n)) n level v) (\<lambda>res.
             push_field (Field n False h v)
               (snd (register_new (fst res) (scoped name n)
                      (find_widget st (scoped name n) = None) (snd res)))
               (Parse_fields X
                  (fst (register_new (fst res) (scoped name n)
                         (find_widget st (scoped name n) = None) (snd res)))
                  True update name level rest))"
  using assms
  by (cases v; cases "Parse_scalar X st (find_widget st (scoped name n)) n level v")
     (auto simp: scalar_value_def)

lemma find_widget_objects [simp]: "find_widget (st\<lparr> objects := os \<rparr>) k = find_widget st k"
  by (simp add: find_widget_def)

lemma register_new_fresh:
  assumes "find_widget st key = None" and "key \<noteq> []"
  shows "register_new (st\<lparr> objects := objects st @ [w] \<rparr>) key True (Some (length (objects st)))
         = (\<lparr> configWidgets = configWidgets st @ [(key, length (objects st))],
              objects = objects st @ [w\<lparr> scopedName := key \<rparr>] \<rparr>,
            [length (objects st)])"
  using assms by (simp add: register_new_def AddPropertyWidget_def)

lemma register_new_none [simp]: "register_new st key b None = (st, [])"
  by (simp add: register_new_def)

lemma find_widget_registered:
  "find_widget \<lparr> configWidgets = configWidgets st @ [(key, a)], objects = os \<rparr> k
     = (case find_widget st k of Some x \<Rightarrow> Some x | None \<Rightarrow> if k = key then Some a else None)"
  by (auto simp: find_widget_def map_add_def split: option.splits)

lemma Parse_fields_scalars:
  assumes "list_all scalar_field fs" and "distinct (map fname fs)"
    and "\<forall>s\<in>set fs. find_widget st (scoped name (fname s)) = None"
  shows "\<exists>st' ws. Parse_fields X st True update name level fs = Inr (st', fs, Some ws)
          \<and> (\<forall>k. k \<notin> scoped name ` fname ` set fs \<longrightarrow> find_widget st' k = find_widget st k)
          \<and> (\<exists>new. objects st' = objects st @ new)
          \<and> list_all (tracked X update st' name) fs"
  using assms
proof (induction fs arbitrary: st)
  case Nil
  then show ?case by simp
next
  case (Cons s fs)
  from Cons.prems(1) obtain n h v where s: "s = Field n False h v" and n: "n \<noteq> []"
    and cb: "comes_back n v"
    by (cases s) (auto simp: scalar_field_def)
  from Cons.prems(1) have sf: "list_all scalar_field fs" by simp
  from Cons.prems(2) s have dn: "distinct (map fname fs)" and nn: "n \<notin> fname ` set fs" by auto
  from Cons.prems(3) s have fresh: "find_widget st (scoped name n) = None"
    and fresh_tl: "\<forall>s\<in>set fs. find_widget st (scoped name (fname s)) = None" by auto
  from nn have key: "scoped name n \<notin> scoped name ` fname ` set fs" by auto
  note sv = comes_back_scalar [OF cb]
  show ?case
  proof (cases "created update s")
    case False
    have step: "Parse_fields X st True update name level (s # fs)
                = push_field s [] (Parse_fields X st True update name level fs)"
    proof (cases "update \<and> \<not> h")
      case True
      then show ?thesis using s by (simp add: skip_field_def push_field_def option.map_ident)
    next
      case nskip: False
      with False s have "\<not> gets_widget v" by (auto simp: created_def)
      from Parse_scalar_none [OF sv this] show ?thesis
        unfolding s Parse_fields_scalar_step [OF sv nskip] by simp
    qed
    from Cons.IH [OF sf dn fresh_tl] obtain st' ws where
      run: "Parse_fields X st True update name level fs = Inr (st', fs, Some ws)"
      and frame: "\<forall>k. k \<notin> scoped name ` fname ` set fs \<longrightarrow> find_widget st' k = find_widget st k"
      and objs: "\<exists>new. objects st' = objects st @ new"
      and tr: "list_all (tracked X update st' name) fs"
      by blast
    from step run have "Parse_fields X st True update name level (s # fs) = Inr (st', s # fs, Some ws)"
      by (simp add: push_field_def)
    moreover from frame have
      "\<forall>k. k \<notin> scoped name ` fname ` set (s # fs) \<longrightarrow> find_widget st' k = find_widget st k"
      by simp
    moreover from frame key fresh have "find_widget st' (scoped name n) = None" by simp
    with False s have "tracked X update st' name s" by (simp add: tracked_def)
    ultimately show ?thesis using objs tr by auto
  next
    case True
    with s have gw: "gets_widget v" and ns: "\<not> (update \<and> \<not> h)" by (auto simp: created_def)
    from Parse_scalar_new [OF cb gw, of X st level] obtain w where
      ps: "Parse_scalar X st None n level v
             = Inr (st\<lparr> objects := objects st @ [w] \<rparr>, Some (length (objects st)))"
      and hw: "holds X w v" by blast
    let ?a = "length (objects st)"
    let ?st1 = "\<lparr> configWidgets = configWidgets st @ [(scoped name n, ?a)],
                 objects = objects st @ [w\<lparr> scopedName := scoped name n \<rparr>] \<rparr>"
    have step: "Parse_fields X st True update name level (s # fs)
                = push_field s [?a] (Parse_fields X ?st1 True update name level fs)"
      using fresh ps register_new_fresh [OF fresh scoped_nonempty [OF n], of w]
      unfolding s Parse_fields_scalar_step [OF sv ns] by simp
    have fresh1: "\<forall>s\<in>set fs. find_widget ?st1 (scoped name (fname s)) = None"
      using fresh_tl nn by (auto simp: find_widget_registered)
    from Cons.IH [OF sf dn fresh1] obtain st' ws where
      run: "Parse_fields X ?st1 True update name level fs = Inr (st', fs, Some ws)"
      and frame: "\<forall>k. k \<notin> scoped name ` fname ` set fs \<longrightarrow> find_widget st' k = find_widget ?st1 k"
      and objs: "\<exists>new. objects st' = objects ?st1 @ new"
      and tr: "list_all (tracked X update st' name) fs"
      by blast
    from step run have res: "Parse_fields X st True update name level (s # fs)
                         = Inr (st', s # fs, Some (?a # ws))"
      by (simp add: push_field_def)
    have frame': "\<forall>k. k \<notin> scoped name ` fname ` set (s # fs) \<longrightarrow> find_widget st' k = find_widget st k"
    proof (intro allI impI)
      fix k
      assume k: "k \<notin> scoped name ` fname ` set (s # fs)"
      with s have k1: "k \<noteq> scoped name n" and k2: "k \<notin> scoped name ` fname ` set fs" by auto
      from frame k2 have "find_widget st' k = find_widget ?st1 k" by blast
      also from k1 have "\<dots> = find_widget st k"
        by (simp add: find_widget_registered split: option.splits)
      finally show "find_widget st' k = find_widget st k" .
    qed
    from objs obtain new where new: "objects st' = objects st @ (w\<lparr> scopedName := scoped name n \<rparr> # new)"
      by auto
    from frame key have "find_widget st' (scoped name n) = find_widget ?st1 (scoped name n)" by blast
    with fresh have fa: "find_widget st' (scoped name n) = Some ?a"
      by (simp add: find_widget_registered)
    from new have da: "deref st' ?a = Inr (w\<lparr> scopedName := scoped name n \<rparr>)"
      by (simp add: deref_def)
    from fa da hw True s have "tracked X update st' name s"
      by (auto simp: tracked_def)
    with res frame' new tr show ?thesis by auto
  qed
qed

lemma mark_set_same: "update \<or> has s \<Longrightarrow> scalar_field s \<Longrightarrow> mark_set update s = s"
  by (cases s) (auto simp: mark_set_def scalar_field_def)

lemma map_mark_set_same:
  "update \<or> list_all has fs \<Longrightarrow> list_all scalar_field fs \<Longrightarrow> map (mark_set update) fs = fs"
  by (induction fs) (auto simp: mark_set_same)

text \<open>
  C1, as amended. Take a message whose fields are all scalar fields in the sense of
  \<open>scalar_field\<close>: not repeated, under distinct non-empty names, and holding a finite
  double, a finite float of the single format, an int64 or uint64 that fits in 32 bits, an
  int32, uint32 or bool, a string of well-formed UTF-8 text (no byte-order mark in front)
  that its edit control returns as it is (at most 32767 UTF-16 code units in the line edit;
  in the plain-text edit of a field named innerxml no carriage return, U+2028, U+2029,
  U+FDD0, U+FDD1 or no-break space), an enum whose value names are distinct, well-formed
  UTF-8 text and free of NUL bytes, or a value of a type the switch has no case for. Take a
  state whose map has none of the scoped names of the fields. Then \<open>Parse\<close> followed by
  \<open>UpdateMsg\<close> returns and gives the message back with every value as it was; a field for
  which \<open>Parse\<close> made a widget comes back with its has-bit set (\<open>UpdateMsg\<close> writes every
  field that has a widget, set or not). So the result equals the input when all fields were
  set, and always when \<open>Parse\<close> ran in update mode, where only set fields get widgets.
\<close>

theorem Parse_then_UpdateMsg_scalars:
  assumes "list_all scalar_field fs" and "distinct (map fname fs)"
    and "\<forall>s\<in>set fs. find_widget st (scoped name (fname s)) = None"
  shows "Parse_then_UpdateMsg X st (Message True True fs) update name level
           = Inr (Message True True (map (mark_set update) fs))
         \<and> (update \<or> list_all has fs \<longrightarrow>
              Parse_then_UpdateMsg X st (Message True True fs) update name level
                = Inr (Message True True fs))"
proof -
  from Parse_fields_scalars [OF assms, of X update level] obtain st' ws where
    run: "Parse_fields X st True update name level fs = Inr (st', fs, Some ws)"
    and tr: "list_all (tracked X update st' name) fs"
    by blast
  from UpdateMsg_fields_tracked [OF assms(1) tr]
  have wb: "UpdateMsg_fields X st' True name fs = Inr (map (mark_set update) fs)" .
  from run wb have res: "Parse_then_UpdateMsg X st (Message True True fs) update name level
           = Inr (Message True True (map (mark_set update) fs))"
    by (simp add: Parse_then_UpdateMsg_def)
  with map_mark_set_same [OF _ assms(1), of update] show ?thesis
    by auto
qed

text \<open>
  C1 as stated fails: \<open>Parse\<close> reads an int64 field into an \<open>int\<close>, so the value
  5000000000 of a set field reaches the widget as 705032704 and \<open>UpdateMsg\<close> writes that
  into the message.
\<close>

theorem Parse_then_UpdateMsg_int64_counterexample:
  "Parse_then_UpdateMsg sample_ext MessageWidget_init wide_msg False [] 0
     = Inr (Message True True [Field ''id'' False True (VInt64 705032704)])
   \<and> Parse_then_UpdateMsg sample_ext MessageWidget_init wide_msg False [] 0 \<noteq> Inr wide_msg"
  by (simp add: Parse_then_UpdateMsg_def wide_msg_def MessageWidget_init_def find_widget_def
        scoped_def Parse_scalar_def set_in_def new_or_found_def new_object_def call_SetValue_def
        deref_def store_def SetValue_def new_NumberWidget_def blank_widget_def register_new_def
        AddPropertyWidget_def push_field_def group_box_def cons_field_def WidgetReadOnly_def
        UpdateMsg_scalar_def Value_def)

theorem Parse_then_UpdateMsg_scalars_witness:
  "Parse_then_UpdateMsg sample_ext MessageWidget_init scalars_msg False [] 0
     = Inr (Message True True
        [Field ''mass'' False True (VDouble (Finite (5 / 2))),
         Field ''ratio'' False True (VFloat (Finite (1 / 4))),
         Field ''count'' False True (VInt64 (- 7)),
         Field ''name'' False True (VString [CHR ''c'', CHR ''a'', CHR ''f'', CHR 0xC3, CHR 0xA9]),
         Field ''innerxml'' False True (VString [CHR ''<'', CHR ''a'', CHR ''/'', CHR ''>'', CHR 0x0A]),
         Field ''type'' False True (VEnum [''BOX'', ''SPHERE''] 1),
         Field ''static'' False True (VBool True),
         Field ''raw'' False False (VOther TYPE_BYTES [1, 2])])
   \<and> Parse_then_UpdateMsg sample_ext MessageWidget_init scalars_msg True [] 0 = Inr scalars_msg"
proof -
  let ?fs = "[Field ''mass'' False True (VDouble (Finite (5 / 2))),
      Field ''ratio'' False True (VFloat (Finite (1 / 4))),
      Field ''count'' False False (VInt64 (- 7)),
      Field ''name'' False True (VString [CHR ''c'', CHR ''a'', CHR ''f'', CHR 0xC3, CHR 0xA9]),
      Field ''innerxml'' False True (VString [CHR ''<'', CHR ''a'', CHR ''/'', CHR ''>'', CHR 0x0A]),
      Field ''type'' False True (VEnum [''BOX'', ''SPHERE''] 1),
      Field ''static'' False False (VBool True),
      Field ''raw'' False False (VOther TYPE_BYTES [1, 2])]"
  have quarter: "float_of_double (Finite (1 / 4)) = Finite (1 / 4)"
    by code_simp
  have a: "list_all scalar_field ?fs"
    by (simp add: scalar_field_def comes_back_def quarter utf8_text_def utf8_len_def seq_ok_def
          cont_def utf16_length_def utf16_units_def plain_breaks_def)
  have b: "distinct (map fname ?fs)" by simp
  have c: "\<forall>s\<in>set ?fs. find_widget MessageWidget_init (scoped [] (fname s)) = None"
    by (simp add: MessageWidget_init_def find_widget_def)
  from Parse_then_UpdateMsg_scalars [OF a b c, of sample_ext False 0]
       Parse_then_UpdateMsg_scalars [OF a b c, of sample_ext True 0]
  show ?thesis
    by (simp add: scalars_msg_def mark_set_def gets_widget_def)
qed

section \<open>Properties of the render bridge\<close>

lemma Initialize_fails:
  "\<not> initialized r \<Longrightarrow> engineName r \<notin> set engines \<Longrightarrow> IgnRenderer_Initialize engines r = r"
  by (simp add: IgnRenderer_Initialize_def)

lemma Render_times_uninitialized: "\<not> initialized r \<Longrightarrow> Render_times n r = r"
  by (induction n) (simp_all add: IgnRenderer_Render_def)

lemma RenderNext_times_uninitialized:
  "\<not> initialized r \<Longrightarrow> engineName r \<notin> set engines \<Longrightarrow> RenderNext_times n engines r = (r, [])"
  by (induction n) (simp_all add: RenderNext_def Initialize_fails)

text \<open>
  C9. When \<open>Initialize\<close> fails because the engine is not found, the renderer stays
  uninitialized, any number of \<open>Render\<close> calls leaves it as it is, and any number of
  \<open>RenderNext\<close> calls emits no \<open>TextureReady\<close>.
\<close>

theorem failed_Initialize_never_TextureReady:
  assumes "\<not> initialized r" and "engineName r \<notin> set engines"
  shows "\<not> initialized (IgnRenderer_Initialize engines r)
         \<and> Render_times n (IgnRenderer_Initialize engines r) = IgnRenderer_Initialize engines r
         \<and> snd (RenderNext_times n engines (IgnRenderer_Initialize engines r)) = []"
  using assms
  by (simp add: Initialize_fails Render_times_uninitialized RenderNext_times_uninitialized)

theorem failed_Initialize_never_TextureReady_witness:
  "Render_times 3
     (IgnRenderer_Initialize [''ogre'', ''ogre2'']
        \<lparr> textureId = 0, engineName = ''optix'', initialized = False,
          textureSize = (1024, 1024), textureDirty = False, frames = 0 \<rparr>)
     = \<lparr> textureId = 0, engineName = ''optix'', initialized = False,
          textureSize = (1024, 1024), textureDirty = False, frames = 0 \<rparr>
   \<and> snd (RenderNext_times 3 [''ogre'', ''ogre2'']
        (IgnRenderer_Initialize [''ogre'', ''ogre2'']
           \<lparr> textureId = 0, engineName = ''optix'', initialized = False,
             textureSize = (1024, 1024), textureDirty = False, frames = 0 \<rparr>)) = []
   \<and> snd (RenderNext_times 2 [''ogre'', ''ogre2'']
        \<lparr> textureId = 0, engineName = ''ogre'', initialized = False,
          textureSize = (1024, 1024), textureDirty = False, frames = 0 \<rparr>)
     = [TextureReady 1 (1024, 1024), TextureReady 1 (1024, 1024)]"
proof -
  let ?r = "\<lparr> textureId = 0, engineName = ''optix'', initialized = False,
          textureSize = (1024, 1024), textureDirty = False, frames = 0 \<rparr>"
  have a: "\<not> initialized ?r" by simp
  have b: "engineName ?r \<notin> set [''ogre'', ''ogre2'']" by simp
  have c: "IgnRenderer_Initialize [''ogre'', ''ogre2''] ?r = ?r"
    by (simp add: IgnRenderer_Initialize_def)
  have d: "snd (RenderNext_times 2 [''ogre'', ''ogre2'']
        \<lparr> textureId = 0, engineName = ''ogre'', initialized = False,
          textureSize = (1024, 1024), textureDirty = False, frames = 0 \<rparr>)
     = [TextureReady 1 (1024, 1024), TextureReady 1 (1024, 1024)]"
    by (simp add: numeral_2_eq_2 RenderNext_def IgnRenderer_Initialize_def IgnRenderer_Render_def Let_def)
  from failed_Initialize_never_TextureReady [OF a b, of 3] c d show ?thesis
    by simp
qed

end
